theory Spec2Isabelle
  imports Complex_Main
begin

section \<open>The agent and workflow core of \<open>009_agents.ts\<close>\<close>

text \<open>
  The file \<open>src/009_agents.ts\<close> builds Actions, Flows, Workflows and Agents on top of the
  \<open>effect\<close> library. An \<open>Effect<A, E, R>\<close> is a lazy description of a computation; running
  it may read and change mutable state, and ends in a success value, a typed failure or a
  defect (\<open>Effect.die\<close>). The embedding makes this explicit: an effect is a function from
  the world before to an exit and the world after. Three things are left out. An effect
  that never returns has no counterpart, so every property is about capabilities that
  return. Numbers are mathematical: \<open>maxLoops\<close> and the loop counter are integers, the
  results of \<open>Math.random()\<close> are reals, and the rounding of doubles is not modelled.
  What \<open>Math.random()\<close> returns is a parameter of the world, since the code uses it
  where a decision of a language model is meant.
\<close>

subsection \<open>Values, errors and exits\<close>

text \<open>JavaScript values of type \<open>unknown\<close>, as far as the core handles them.\<close>

datatype unknown =
  UNull
| UBool bool
| UNum int
| UStr string
| UObj "(string \<times> unknown) list"

text \<open>\<open>Record<string, unknown>\<close>: the raw arguments of an Action; \<open>{}\<close> is \<open>[]\<close>.\<close>

type_synonym args = "(string \<times> unknown) list"

text \<open>
  The tagged errors of the file. \<open>OtherError\<close> carries the errors \<open>E\<close> that an Action
  declares for itself.
\<close>

datatype 'e error =
  ParseError string
| AgentExecutionError string
| FlowExecutionError string
| OtherError 'e

text \<open>How a run of an effect ends: \<open>Die\<close> is a defect raised by \<open>Effect.die\<close>.\<close>

datatype ('a, 'e) Exit =
  Success 'a
| Failure 'e
| Die string

subsection \<open>The world an effect runs in\<close>

text \<open>
  \<open>arrays\<close> is the JavaScript heap of string arrays (address to contents) and \<open>allocated\<close>
  the number of arrays allocated so far. \<open>conversationHistory\<close> and \<open>executionState\<close> are
  the two variables captured by the closures of \<open>AgentStateService\<close>: the first holds the
  address of an array that \<open>push\<close> mutates in place, the second an object that
  \<open>updateState\<close> replaces by a new one and never mutates. \<open>randomValues\<close> are the
  successive results of \<open>Math.random()\<close> and \<open>randomCount\<close> counts the calls made so far.
  \<open>services\<close> is the state of the services \<open>R\<close> that the Actions require.
\<close>

record 'r World =
  arrays :: "nat \<Rightarrow> string list"
  allocated :: nat
  conversationHistory :: nat
  executionState :: "string \<rightharpoonup> unknown"
  randomValues :: "nat \<Rightarrow> real"
  randomCount :: nat
  services :: 'r

type_synonym ('a, 'e, 'r) Effect = "'r World \<Rightarrow> ('a, 'e) Exit \<times> 'r World"

definition succeed :: "'a \<Rightarrow> ('a, 'e, 'r) Effect" where
  "succeed a = (\<lambda>w. (Success a, w))"

definition fail :: "'e \<Rightarrow> ('a, 'e, 'r) Effect" where
  "fail e = (\<lambda>w. (Failure e, w))"

definition die :: "string \<Rightarrow> ('a, 'e, 'r) Effect" where
  "die d = (\<lambda>w. (Die d, w))"

definition flatMap ::
  "('a, 'e, 'r) Effect \<Rightarrow> ('a \<Rightarrow> ('b, 'e, 'r) Effect) \<Rightarrow> ('b, 'e, 'r) Effect" where
  "flatMap m f = (\<lambda>w. case m w of
       (Success a, w') \<Rightarrow> f a w'
     | (Failure e, w') \<Rightarrow> (Failure e, w')
     | (Die d, w') \<Rightarrow> (Die d, w'))"

definition mapEffect :: "('a, 'e, 'r) Effect \<Rightarrow> ('a \<Rightarrow> 'b) \<Rightarrow> ('b, 'e, 'r) Effect" where
  "mapEffect m f = flatMap m (\<lambda>a. succeed (f a))"

definition mapError :: "('a, 'e, 'r) Effect \<Rightarrow> ('e \<Rightarrow> 'f) \<Rightarrow> ('a, 'f, 'r) Effect" where
  "mapError m f = (\<lambda>w. case m w of
       (Success a, w') \<Rightarrow> (Success a, w')
     | (Failure e, w') \<Rightarrow> (Failure (f e), w')
     | (Die d, w') \<Rightarrow> (Die d, w'))"

text \<open>\<open>Math.random()\<close>: the next value of the random source.\<close>

definition mathRandom :: "(real, 'e, 'r) Effect" where
  "mathRandom = (\<lambda>w. (Success (randomValues w (randomCount w)),
                      w\<lparr>randomCount := Suc (randomCount w)\<rparr>))"

text \<open>
  Template literals print an integer in decimal. (From \<open>10\<^sup>2\<^sup>1\<close> on JavaScript prints
  a number in exponent form; the texts of messages with such numbers are not modelled.)
\<close>

fun showNat :: "nat \<Rightarrow> string" where
  "showNat n = (if n < 10 then [''0123456789'' ! n]
                else showNat (n div 10) @ [''0123456789'' ! (n mod 10)])"

declare showNat.simps [simp del]

definition showInt :: "int \<Rightarrow> string" where
  "showInt i = (if i < 0 then ''-'' @ showNat (nat (- i)) else showNat (nat i))"

subsection \<open>AgentStateService\<close>

text \<open>
  The constructor of the service: \<open>let conversationHistory = []\<close> allocates a new array,
  \<open>let executionState = {}\<close> starts from the empty object.
\<close>

definition AgentStateService :: "'r World \<Rightarrow> 'r World" where
  "AgentStateService w =
     w\<lparr>arrays := (arrays w)(allocated w := []),
       allocated := Suc (allocated w),
       conversationHistory := allocated w,
       executionState := Map.empty\<rparr>"

text \<open>\<open>conversationHistory.push(message)\<close> changes the array in place.\<close>

definition push :: "string \<Rightarrow> 'r World \<Rightarrow> 'r World" where
  "push message w =
     w\<lparr>arrays := (arrays w)(conversationHistory w := arrays w (conversationHistory w) @ [message])\<rparr>"

definition addMessage :: "string \<Rightarrow> (unit, 'e, 'r) Effect" where
  "addMessage message = (\<lambda>w. (Success (), push message w))"

text \<open>
  \<open>getHistory\<close> succeeds with the value of the variable \<open>conversationHistory\<close>, which is
  a reference to the array; \<open>readArray\<close> reads what a reference shows in a given world.
\<close>

definition getHistory :: "(nat, 'e, 'r) Effect" where
  "getHistory = (\<lambda>w. succeed (conversationHistory w) w)"

definition readArray :: "'r World \<Rightarrow> nat \<Rightarrow> string list" where
  "readArray w a = arrays w a"

text \<open>\<open>{ ...executionState, ...newState }\<close>: the keys of \<open>newState\<close> win.\<close>

definition updateState :: "(string \<rightharpoonup> unknown) \<Rightarrow> (unit, 'e, 'r) Effect" where
  "updateState newState =
     (\<lambda>w. (Success (), w\<lparr>executionState := executionState w ++ newState\<rparr>))"

definition getState :: "(string \<rightharpoonup> unknown, 'e, 'r) Effect" where
  "getState = (\<lambda>w. succeed (executionState w) w)"

subsection \<open>Actions\<close>

record ActionReturn =
  "done" :: bool
  result :: string

text \<open>
  A \<open>Schema\<close> is taken by what \<open>Schema.decodeUnknown\<close> does with it: the raw arguments
  decode to a value or to an issue, given here as the string \<open>String(error)\<close>.
\<close>

type_synonym Schema = "args \<Rightarrow> string + args"

definition decodeUnknown :: "Schema \<Rightarrow> args \<Rightarrow> (args, string, 'r) Effect" where
  "decodeUnknown schema a = (case schema a of Inl issue \<Rightarrow> fail issue | Inr v \<Rightarrow> succeed v)"

record ('e, 'r) Action =
  name :: string
  description :: string
  Params :: Schema
  handle :: "args \<Rightarrow> (ActionReturn, 'e error, 'r) Effect"

record ('e, 'r) ActionConfig =
  name :: string
  description :: string
  Params :: Schema
  execute :: "args \<Rightarrow> (ActionReturn, 'e error, 'r) Effect"

definition createAction :: "('e, 'r) ActionConfig \<Rightarrow> ('e, 'r) Action" where
  "createAction config =
     \<lparr>Action.name = ActionConfig.name config,
      Action.description = ActionConfig.description config,
      Action.Params = ActionConfig.Params config,
      Action.handle = (\<lambda>a.
        flatMap
          (mapError (decodeUnknown (ActionConfig.Params config) a) (\<lambda>error. ParseError error))
          (ActionConfig.execute config))\<rparr>"

subsection \<open>The Flow DSL\<close>

record FlowIntermediateResult = ActionReturn +
  nextState :: "unknown option"

record ('e, 'r) Flow =
  execute :: "unknown \<Rightarrow> (FlowIntermediateResult, 'e error, 'r) Effect"

type_synonym ('e, 'r) FlowWrap = "(('e, 'r) Flow, 'e error, 'r) Effect"

definition first :: "('e, 'r) Action \<Rightarrow> ('e, 'r) FlowWrap" where
  "first step =
     succeed \<lparr>Flow.execute = (\<lambda>executionState.
       flatMap (Action.handle step [])
         (\<lambda>result. succeed \<lparr>done = done result, result = ActionReturn.result result,
                             nextState = Some executionState\<rparr>))\<rparr>"

definition andThen :: "('e, 'r) Action \<Rightarrow> ('e, 'r) FlowWrap \<Rightarrow> ('e, 'r) FlowWrap" where
  "andThen step previousFlow =
     flatMap previousFlow (\<lambda>prevFlow.
       succeed \<lparr>Flow.execute = (\<lambda>executionState.
         flatMap (Flow.execute prevFlow executionState) (\<lambda>prevResult.
           if done prevResult then succeed prevResult
           else flatMap (Action.handle step [])
                  (\<lambda>result. succeed \<lparr>done = done result, result = ActionReturn.result result,
                                      nextState = nextState prevResult\<rparr>)))\<rparr>)"

record ('e, 'r) Branches =
  onTrue :: "('e, 'r) FlowWrap \<Rightarrow> ('e, 'r) FlowWrap"
  onFalse :: "('e, 'r) FlowWrap \<Rightarrow> ('e, 'r) FlowWrap"

definition doIf ::
  "string \<Rightarrow> ('e, 'r) Branches \<Rightarrow> ('e, 'r) FlowWrap \<Rightarrow> ('e, 'r) FlowWrap" where
  "doIf condition branches previousFlow =
     flatMap previousFlow (\<lambda>prevFlow.
       flatMap mathRandom (\<lambda>random.
         let conditionMet = (random > 0.5)
         in if conditionMet then onTrue branches (succeed prevFlow)
            else onFalse branches (succeed prevFlow)))"

definition noOp :: "('e, 'r) FlowWrap \<Rightarrow> ('e, 'r) FlowWrap" where
  "noOp flow = flow"

subsection \<open>Workflows\<close>

record ('e, 'r) Workflow =
  name :: string
  description :: string
  execute :: "(ActionReturn, 'e error, 'r) Effect"

record ('e, 'r) WorkflowConfig =
  name :: string
  description :: string
  flow :: "('e, 'r) FlowWrap"

definition createWorkflow :: "('e, 'r) WorkflowConfig \<Rightarrow> ('e, 'r) Workflow" where
  "createWorkflow config =
     \<lparr>Workflow.name = WorkflowConfig.name config,
      Workflow.description = WorkflowConfig.description config,
      Workflow.execute =
        mapEffect
          (flatMap (WorkflowConfig.flow config) (\<lambda>flow. Flow.execute flow (UObj [])))
          (\<lambda>result. \<lparr>done = done result, result = ActionReturn.result result\<rparr>)\<rparr>"

subsection \<open>Agents\<close>

text \<open>
  \<open>maxLoops\<close> is a whole number here; \<open>None\<close> is the option left out.
\<close>

record AgentOptions =
  maxLoops :: "int option"

record ('e, 'r) Agent =
  name :: string
  description :: string
  execute :: "AgentOptions \<Rightarrow> (ActionReturn, 'e error, 'r) Effect"

record ('e, 'r) AgentConfig =
  name :: string
  description :: string
  actions :: "('e, 'r) Action list option"
  workflows :: "('e, 'r) Workflow list option"
  agents :: "('e, 'r) Agent list option"

datatype ('e, 'r) Capability =
  ActionCap "('e, 'r) Action"
| WorkflowCap "('e, 'r) Workflow"
| AgentCap "('e, 'r) Agent"

text \<open>\<open>config.actions ?? []\<close>\<close>

definition orEmpty :: "'a list option \<Rightarrow> 'a list" where
  "orEmpty xs = (case xs of None \<Rightarrow> [] | Some ys \<Rightarrow> ys)"

definition capabilities :: "('e, 'r) AgentConfig \<Rightarrow> ('e, 'r) Capability list" where
  "capabilities config =
     map ActionCap (orEmpty (actions config))
     @ map WorkflowCap (orEmpty (workflows config))
     @ map AgentCap (orEmpty (agents config))"

text \<open>\<open>Array.get\<close> of the library: \<open>None\<close> outside the bounds.\<close>

definition Array_get :: "'a list \<Rightarrow> int \<Rightarrow> 'a option" where
  "Array_get self index =
     (if index < 0 \<or> int (length self) \<le> index then None else Some (self ! nat index))"

text \<open>The \<open>switch\<close> on the tag of the selected capability.\<close>

definition dispatch :: "('e, 'r) Capability \<Rightarrow> (ActionReturn, 'e error, 'r) Effect" where
  "dispatch capability =
     (case capability of
        ActionCap action \<Rightarrow>
          flatMap (addMessage (''Executing action: '' @ Action.name action))
            (\<lambda>_. Action.handle action [])
      | WorkflowCap workflow \<Rightarrow>
          flatMap (addMessage (''Executing workflow: '' @ Workflow.name workflow))
            (\<lambda>_. Workflow.execute workflow)
      | AgentCap agent \<Rightarrow>
          flatMap (addMessage (''Delegating to sub-agent: '' @ Agent.name agent))
            (\<lambda>_. Agent.execute agent \<lparr>maxLoops = Some 5\<rparr>))"

text \<open>
  One pass through the body of the \<open>while\<close> loop. \<open>Some r\<close> is a \<open>return r\<close> inside the
  loop, \<open>None\<close> reaches \<open>loopCount++\<close>. The product under \<open>Math.floor\<close> is exact here;
  the code rounds it to a double first, which for some values selects a neighbouring
  index, still within the candidates.
\<close>

definition loopBody ::
  "('e, 'r) AgentConfig \<Rightarrow> int \<Rightarrow> int \<Rightarrow> (ActionReturn option, 'e error, 'r) Effect" where
  "loopBody config maxLoops' loopCount =
     flatMap (addMessage (''Agent loop '' @ showInt (loopCount + 1) @ ''/'' @ showInt maxLoops'))
       (\<lambda>_.
         if length (capabilities config) = 0
         then succeed (Some \<lparr>done = True, result = ''No capabilities available''\<rparr>)
         else flatMap mathRandom (\<lambda>random.
           let selectionIndex = \<lfloor>random * real (length (capabilities config))\<rfloor>;
               maybeCapability = Array_get (capabilities config) selectionIndex
           in flatMap
                (case maybeCapability of
                   None \<Rightarrow> die (''Impossible: index '' @ showInt selectionIndex
                                 @ '' out of bounds for array of length ''
                                 @ showInt (int (length (capabilities config))))
                 | Some c \<Rightarrow> succeed c)
                (\<lambda>capability.
                  flatMap (dispatch capability) (\<lambda>result.
                    if done result
                    then flatMap
                           (addMessage (''Completed with result: '' @ ActionReturn.result result))
                           (\<lambda>_. succeed (Some result))
                    else succeed None))))"

function agentLoop ::
  "('e, 'r) AgentConfig \<Rightarrow> int \<Rightarrow> int \<Rightarrow> (ActionReturn, 'e error, 'r) Effect" where
  "agentLoop config maxLoops' loopCount w =
     (if loopCount < maxLoops'
      then (case loopBody config maxLoops' loopCount w of
              (Success (Some r), w') \<Rightarrow> (Success r, w')
            | (Success None, w') \<Rightarrow> agentLoop config maxLoops' (loopCount + 1) w'
            | (Failure e, w') \<Rightarrow> (Failure e, w')
            | (Die d, w') \<Rightarrow> (Die d, w'))
      else flatMap (addMessage (''Agent reached max loops ('' @ showInt maxLoops' @ '')''))
             (\<lambda>_. succeed \<lparr>done = True,
                            result = ''Agent reached maximum loops ('' @ showInt maxLoops' @ '')''\<rparr>)
             w)"
  by pat_completeness auto
termination
  by (relation "measure (\<lambda>(config, maxLoops', loopCount, w). nat (maxLoops' - loopCount))") auto

declare agentLoop.simps [simp del]

definition createAgent :: "('e, 'r) AgentConfig \<Rightarrow> ('e, 'r) Agent" where
  "createAgent config =
     \<lparr>Agent.name = AgentConfig.name config,
      Agent.description = AgentConfig.description config,
      Agent.execute = (\<lambda>options.
        flatMap (addMessage (''Starting agent: '' @ AgentConfig.name config)) (\<lambda>_.
          let maxLoops = (case maxLoops options of None \<Rightarrow> 10 | Some n \<Rightarrow> n)
          in agentLoop config maxLoops 0))\<rparr>"

subsection \<open>Notions used to state the properties\<close>

text \<open>
  The store operations, to speak about sequences of them. \<open>performAll\<close> runs a sequence
  and \<open>addedMessages\<close> lists the messages it appends.
\<close>

datatype StoreOp =
  OpAddMessage string
| OpGetHistory
| OpUpdateState "(string \<times> unknown) list"
| OpGetState

fun perform :: "StoreOp \<Rightarrow> 'r World \<Rightarrow> 'r World" where
  "perform (OpAddMessage message) w = snd ((addMessage message :: (unit, unit, 'r) Effect) w)"
| "perform OpGetHistory w = snd ((getHistory :: (nat, unit, 'r) Effect) w)"
| "perform (OpUpdateState newState) w =
     snd ((updateState (map_of newState) :: (unit, unit, 'r) Effect) w)"
| "perform OpGetState w = snd ((getState :: (string \<rightharpoonup> unknown, unit, 'r) Effect) w)"

fun performAll :: "StoreOp list \<Rightarrow> 'r World \<Rightarrow> 'r World" where
  "performAll [] w = w"
| "performAll (op # ops) w = performAll ops (perform op w)"

fun addedMessages :: "StoreOp list \<Rightarrow> string list" where
  "addedMessages [] = []"
| "addedMessages (OpAddMessage message # ops) = message # addedMessages ops"
| "addedMessages (_ # ops) = addedMessages ops"

text \<open>The history of the store: what the array of \<open>conversationHistory\<close> holds.\<close>

definition history :: "'r World \<Rightarrow> string list" where
  "history w = readArray w (conversationHistory w)"

text \<open>
  The parts of one pass through the loop of an Agent: the trace message of the pass, the
  index \<open>Math.floor(Math.random() * capabilities.length)\<close> that the pass selects in
  world \<open>w\<close>, the world in which the selected capability is dispatched, and the result
  returned when the loop ends without a capability being done.
\<close>

definition loopMessage :: "int \<Rightarrow> int \<Rightarrow> string" where
  "loopMessage maxLoops' loopCount =
     ''Agent loop '' @ showInt (loopCount + 1) @ ''/'' @ showInt maxLoops'"

definition selectionIndex :: "('e, 'r) AgentConfig \<Rightarrow> 'r World \<Rightarrow> int" where
  "selectionIndex config w =
     \<lfloor>randomValues w (randomCount w) * real (length (capabilities config))\<rfloor>"

definition selecting :: "int \<Rightarrow> int \<Rightarrow> 'r World \<Rightarrow> 'r World" where
  "selecting maxLoops' loopCount w =
     (push (loopMessage maxLoops' loopCount) w)\<lparr>randomCount := Suc (randomCount w)\<rparr>"

definition exhausted :: "int \<Rightarrow> ActionReturn" where
  "exhausted maxLoops' =
     \<lparr>done = True, result = ''Agent reached maximum loops ('' @ showInt maxLoops' @ '')''\<rparr>"

text \<open>\<open>Math.random()\<close> returns a number from 0 up to, not including, 1.\<close>

definition unitRandom :: "'r World \<Rightarrow> bool" where
  "unitRandom w = (\<forall>n. 0 \<le> randomValues w n \<and> randomValues w n < 1)"

text \<open>
  What one pass does to the world when it dispatches \<open>action\<close>: the two trace messages,
  one draw from the random source, and one run of \<open>handle\<close>.
\<close>

definition actionIteration :: "('e, 'r) Action \<Rightarrow> int \<Rightarrow> 'r World \<Rightarrow> int \<Rightarrow> 'r World" where
  "actionIteration action maxLoops' w loopCount =
     snd (Action.handle action []
            (push (''Executing action: '' @ Action.name action) (selecting maxLoops' loopCount w)))"

text \<open>
  To speak about what the loop of an Agent itself does to the store: the effect that
  \<open>dispatch\<close> runs for a capability after its trace message, that message, effects that
  leave the execution context of the store as it is and only append messages of a kind
  \<open>M\<close> to its history, and the fixed trace messages of a run with a given budget.
\<close>

definition inner :: "('e, 'r) Capability \<Rightarrow> (ActionReturn, 'e error, 'r) Effect" where
  "inner capability =
     (case capability of
        ActionCap action \<Rightarrow> Action.handle action []
      | WorkflowCap workflow \<Rightarrow> Workflow.execute workflow
      | AgentCap agent \<Rightarrow> Agent.execute agent \<lparr>maxLoops = Some 5\<rparr>)"

definition dispatchMessage :: "('e, 'r) Capability \<Rightarrow> string" where
  "dispatchMessage capability =
     (case capability of
        ActionCap action \<Rightarrow> ''Executing action: '' @ Action.name action
      | WorkflowCap workflow \<Rightarrow> ''Executing workflow: '' @ Workflow.name workflow
      | AgentCap agent \<Rightarrow> ''Delegating to sub-agent: '' @ Agent.name agent)"

definition appendsOnly :: "(string \<Rightarrow> bool) \<Rightarrow> ('a, 'e, 'r) Effect \<Rightarrow> bool" where
  "appendsOnly M m =
     (\<forall>w. executionState (snd (m w)) = executionState w
          \<and> (\<exists>added. history (snd (m w)) = history w @ added
                \<and> (\<forall>message\<in>set added. M message)))"

definition isTraceMessage :: "('e, 'r) AgentConfig \<Rightarrow> int \<Rightarrow> string \<Rightarrow> bool" where
  "isTraceMessage config maxLoops' message =
     (message = ''Starting agent: '' @ AgentConfig.name config
      \<or> message \<in> set (map (loopMessage maxLoops') [0..maxLoops' - 1])
      \<or> message \<in> set (map dispatchMessage (capabilities config))
      \<or> message = ''Agent reached max loops ('' @ showInt maxLoops' @ '')'')"

text \<open>A completion message of some Agent.\<close>

definition isCompletionMessage :: "string \<Rightarrow> bool" where
  "isCompletionMessage message =
     (take (length ''Completed with result: '') message = ''Completed with result: '')"

text \<open>
  The same configuration, except that every capability has the result string of each
  return that is not done replaced by \<open>g\<close> of it.
\<close>

definition rewriteUndone :: "(string \<Rightarrow> string) \<Rightarrow> ActionReturn \<Rightarrow> ActionReturn" where
  "rewriteUndone g r = (if done r then r else r\<lparr>result := g (ActionReturn.result r)\<rparr>)"

definition rewriting ::
  "(string \<Rightarrow> string) \<Rightarrow> ('e, 'r) Capability \<Rightarrow> ('e, 'r) Capability" where
  "rewriting g capability =
     (case capability of
        ActionCap action \<Rightarrow>
          ActionCap (action\<lparr>Action.handle :=
            (\<lambda>a. mapEffect (Action.handle action a) (rewriteUndone g))\<rparr>)
      | WorkflowCap workflow \<Rightarrow>
          WorkflowCap (workflow\<lparr>Workflow.execute :=
            mapEffect (Workflow.execute workflow) (rewriteUndone g)\<rparr>)
      | AgentCap agent \<Rightarrow>
          AgentCap (agent\<lparr>Agent.execute :=
            (\<lambda>options. mapEffect (Agent.execute agent options) (rewriteUndone g))\<rparr>))"

definition withUndoneResults ::
  "(string \<Rightarrow> string) \<Rightarrow> ('e, 'r) AgentConfig \<Rightarrow> ('e, 'r) AgentConfig" where
  "withUndoneResults g config =
     config\<lparr>actions := map_option (map (\<lambda>action. action\<lparr>Action.handle :=
                  (\<lambda>a. mapEffect (Action.handle action a) (rewriteUndone g))\<rparr>)) (actions config),
            workflows := map_option (map (\<lambda>workflow. workflow\<lparr>Workflow.execute :=
                  mapEffect (Workflow.execute workflow) (rewriteUndone g)\<rparr>)) (workflows config),
            agents := map_option (map (\<lambda>agent. agent\<lparr>Agent.execute :=
                  (\<lambda>options. mapEffect (Agent.execute agent options) (rewriteUndone g))\<rparr>))
                (agents config)\<rparr>"

text \<open>Resolving a flow builder once and executing the resulting Flow twice.\<close>

definition executeTwice ::
  "('e, 'r) FlowWrap \<Rightarrow> unknown
   \<Rightarrow> (FlowIntermediateResult \<times> FlowIntermediateResult, 'e error, 'r) Effect" where
  "executeTwice builder s =
     flatMap builder (\<lambda>flow.
       flatMap (Flow.execute flow s) (\<lambda>r1.
         flatMap (Flow.execute flow s) (\<lambda>r2. succeed (r1, r2))))"

subsection \<open>Values for the examples\<close>

text \<open>
  A world right after the construction of the service, with a given random source, and
  a service state \<open>nat\<close> that the stub Actions below use as a call counter.
\<close>

definition emptyWorld :: "(nat \<Rightarrow> real) \<Rightarrow> nat World" where
  "emptyWorld rv =
     \<lparr>arrays = (\<lambda>_. []), allocated = 0, conversationHistory = 0, executionState = Map.empty,
      randomValues = rv, randomCount = 0, services = 0\<rparr>"

definition startWorld :: "(nat \<Rightarrow> real) \<Rightarrow> nat World" where
  "startWorld rv = AgentStateService (emptyWorld rv)"

text \<open>A call-counting stub: it accepts any arguments and counts each run of its logic.\<close>

definition countingStub :: "string \<Rightarrow> bool \<Rightarrow> string \<Rightarrow> (unit, nat) Action" where
  "countingStub n d r =
     createAction
       \<lparr>ActionConfig.name = n,
        ActionConfig.description = ''counts its calls'',
        ActionConfig.Params = (\<lambda>a. Inr a),
        ActionConfig.execute =
          (\<lambda>request w. (Success \<lparr>done = d, result = r\<rparr>, w\<lparr>services := Suc (services w)\<rparr>))\<rparr>"

text \<open>
  A schema with one required string field, as \<open>Schema.Struct({response: Schema.String})\<close>:
  decoding keeps the declared field only. The issue text stands for the text that the
  library prints.
\<close>

definition requireString :: "string \<Rightarrow> Schema" where
  "requireString key a =
     (case map_of a key of
        Some (UStr s) \<Rightarrow> Inr [(key, UStr s)]
      | _ \<Rightarrow> Inl (''Missing or invalid field: '' @ key))"

text \<open>
  The configuration of \<open>respondAction\<close>: it is done with \<open>request.response\<close> as its
  result. Its logic counts its runs here.
\<close>

definition respondConfig :: "(unit, nat) ActionConfig" where
  "respondConfig =
     \<lparr>ActionConfig.name = ''Respond'',
      ActionConfig.description =
        ''Responds to the user once the necessary information has been gathered'',
      ActionConfig.Params = requireString ''response'',
      ActionConfig.execute =
        (\<lambda>request w.
           (Success \<lparr>done = True,
                     result = (case map_of request ''response'' of Some (UStr s) \<Rightarrow> s | _ \<Rightarrow> [])\<rparr>,
            w\<lparr>services := Suc (services w)\<rparr>))\<rparr>"

text \<open>Worlds with a random source that answers 0 always, 0.9 first and 0.1 afterwards, 1.5 always.\<close>

definition world0 :: "nat World" where
  "world0 = startWorld (\<lambda>_. 0)"

definition world1 :: "nat World" where
  "world1 = startWorld (\<lambda>n. if n = 0 then 9 / 10 else 1 / 10)"

definition world2 :: "nat World" where
  "world2 = startWorld (\<lambda>_. 3 / 2)"

text \<open>A branch as in \<open>cancelSubscriptionFlow\<close>: one more step if the answer is yes.\<close>

definition branchingFlow :: "(unit, nat) FlowWrap" where
  "branchingFlow =
     doIf ''The user still wants to cancel''
       \<lparr>onTrue = andThen (countingStub ''T'' True ''true branch''), onFalse = noOp\<rparr>
       (first (countingStub ''F'' False ''first step''))"

text \<open>An Agent whose only capability is never done, and an Agent that can only delegate to it.\<close>

definition looperConfig :: "(unit, nat) AgentConfig" where
  "looperConfig =
     \<lparr>AgentConfig.name = ''Looper'',
      AgentConfig.description = ''An agent whose only action is never done'',
      actions = Some [countingStub ''Stub'' False ''again''],
      workflows = None,
      agents = Some []\<rparr>"

definition parentConfig :: "(unit, nat) AgentConfig" where
  "parentConfig =
     \<lparr>AgentConfig.name = ''Parent'',
      AgentConfig.description = ''An agent that can only delegate'',
      actions = None,
      workflows = None,
      agents = Some [createAgent looperConfig]\<rparr>"

text \<open>
  The Agent of the end-to-end example, whose only Action is done at once, and a Workflow
  whose first step is done.
\<close>

definition responderConfig :: "(unit, nat) AgentConfig" where
  "responderConfig =
     \<lparr>AgentConfig.name = ''Support Agent'',
      AgentConfig.description = ''An agent that can only respond'',
      actions = Some [countingStub ''Respond'' True ''hi''],
      workflows = Some [],
      agents = Some []\<rparr>"

definition stopWorkflowConfig :: "(unit, nat) WorkflowConfig" where
  "stopWorkflowConfig =
     \<lparr>WorkflowConfig.name = ''Stop'',
      WorkflowConfig.description = ''A workflow whose first step is done'',
      flow = first (countingStub ''A'' True ''stop'')\<rparr>"

text \<open>
  Agents for the three kinds of capability: one with an Action that is not done and one
  that is, one that can only run the Workflow above, and one that can only delegate to
  the Agent above. The random source of \<open>world3\<close> answers 0.1 first and 0.9 afterwards.
\<close>

definition twoActionsConfig :: "(unit, nat) AgentConfig" where
  "twoActionsConfig =
     \<lparr>AgentConfig.name = ''Two'',
      AgentConfig.description = ''An agent with a step that is not done and one that is'',
      actions = Some [countingStub ''B'' False ''next'', countingStub ''A'' True ''stop''],
      workflows = None,
      agents = None\<rparr>"

definition workflowOnlyConfig :: "(unit, nat) AgentConfig" where
  "workflowOnlyConfig =
     \<lparr>AgentConfig.name = ''Runner'',
      AgentConfig.description = ''An agent that can only run a workflow'',
      actions = None,
      workflows = Some [createWorkflow stopWorkflowConfig],
      agents = None\<rparr>"

definition delegatingConfig :: "(unit, nat) AgentConfig" where
  "delegatingConfig =
     \<lparr>AgentConfig.name = ''Front Desk'',
      AgentConfig.description = ''An agent that can only delegate to the support agent'',
      actions = None,
      workflows = None,
      agents = Some [createAgent responderConfig]\<rparr>"

definition world3 :: "nat World" where
  "world3 = startWorld (\<lambda>n. if n = 0 then 1 / 10 else 9 / 10)"

section \<open>Properties\<close>

subsection \<open>Running effects\<close>

lemma flatMap_Success: "m w = (Success a, w') \<Longrightarrow> flatMap m f w = f a w'"
  by (simp add: flatMap_def)

lemma flatMap_Failure: "m w = (Failure e, w') \<Longrightarrow> flatMap m f w = (Failure e, w')"
  by (simp add: flatMap_def)

lemma flatMap_Die: "m w = (Die d, w') \<Longrightarrow> flatMap m f w = (Die d, w')"
  by (simp add: flatMap_def)

lemma flatMap_succeed: "flatMap (succeed a) f = f a"
  by (simp add: flatMap_def succeed_def)

lemma flatMap_addMessage: "flatMap (addMessage m) f w = f () (push m w)"
  by (simp add: flatMap_def addMessage_def)

lemma handle_countingStub:
  "Action.handle (countingStub n d r) a w
   = (Success \<lparr>done = d, result = r\<rparr>, w\<lparr>services := Suc (services w)\<rparr>)"
  by (simp add: countingStub_def createAction_def flatMap_def mapError_def decodeUnknown_def
      succeed_def)

lemma first_resolves:
  "\<exists>flow. first step w = (Success flow, w)
     \<and> (\<forall>s. Flow.execute flow s =
            flatMap (Action.handle step [])
              (\<lambda>result. succeed \<lparr>done = done result, result = ActionReturn.result result,
                                  nextState = Some s\<rparr>))"
  by (simp add: first_def succeed_def)

lemma flatMap_mathRandom:
  "flatMap mathRandom f w
   = f (randomValues w (randomCount w)) (w\<lparr>randomCount := Suc (randomCount w)\<rparr>)"
  by (simp add: flatMap_def mathRandom_def)

lemma flatMap_die: "flatMap (die d) f w = (Die d, w)"
  by (simp add: flatMap_def die_def)

lemma push_fields [simp]:
  "randomValues (push m w) = randomValues w"
  "randomCount (push m w) = randomCount w"
  "conversationHistory (push m w) = conversationHistory w"
  "executionState (push m w) = executionState w"
  "services (push m w) = services w"
  "allocated (push m w) = allocated w"
  by (simp_all add: push_def)

lemma selectionIndex_push [simp]: "selectionIndex config (push m w) = selectionIndex config w"
  by (simp add: selectionIndex_def)

lemma name_countingStub: "Action.name (countingStub n d r) = n"
  by (simp add: countingStub_def createAction_def)

subsection \<open>One pass through the loop of an Agent\<close>

lemma loopBody_no_capabilities:
  assumes "capabilities config = []"
  shows "loopBody config maxLoops' loopCount w
         = (Success (Some \<lparr>done = True, result = ''No capabilities available''\<rparr>),
            push (loopMessage maxLoops' loopCount) w)"
  using assms by (simp add: loopBody_def flatMap_addMessage succeed_def loopMessage_def)

lemma loopBody_out_of_bounds:
  assumes "capabilities config \<noteq> []"
      and "Array_get (capabilities config) (selectionIndex config w) = None"
  shows "loopBody config maxLoops' loopCount w
         = (Die (''Impossible: index '' @ showInt (selectionIndex config w)
                 @ '' out of bounds for array of length ''
                 @ showInt (int (length (capabilities config)))),
            selecting maxLoops' loopCount w)"
  using assms
  by (simp add: loopBody_def flatMap_addMessage flatMap_mathRandom flatMap_die
      loopMessage_def selectionIndex_def selecting_def Let_def)

lemma loopBody_dispatch:
  assumes "capabilities config \<noteq> []"
      and "Array_get (capabilities config) (selectionIndex config w) = Some capability"
  shows "loopBody config maxLoops' loopCount w
         = flatMap (dispatch capability) (\<lambda>result.
             if done result
             then flatMap (addMessage (''Completed with result: '' @ ActionReturn.result result))
                    (\<lambda>_. succeed (Some result))
             else succeed None)
             (selecting maxLoops' loopCount w)"
  using assms
  by (simp add: loopBody_def flatMap_addMessage flatMap_mathRandom flatMap_succeed
      loopMessage_def selectionIndex_def selecting_def Let_def)

lemma dispatch_AgentCap:
  "dispatch (AgentCap agent) w
   = Agent.execute agent \<lparr>maxLoops = Some 5\<rparr>
       (push (''Delegating to sub-agent: '' @ Agent.name agent) w)"
  by (simp add: dispatch_def flatMap_addMessage)

lemma loopBody_done:
  assumes "capabilities config \<noteq> []"
      and "Array_get (capabilities config) (selectionIndex config w) = Some capability"
      and "dispatch capability (selecting maxLoops' loopCount w) = (Success r, w')"
      and "done r"
  shows "loopBody config maxLoops' loopCount w
         = (Success (Some r), push (''Completed with result: '' @ ActionReturn.result r) w')"
  unfolding loopBody_dispatch [OF assms(1,2)]
  using assms(3,4) by (simp add: flatMap_def addMessage_def succeed_def)

lemma dispatch_ActionCap:
  "dispatch (ActionCap action) w
   = Action.handle action [] (push (''Executing action: '' @ Action.name action) w)"
  by (simp add: dispatch_def flatMap_addMessage)

lemma name_createAgent: "Agent.name (createAgent config) = AgentConfig.name config"
  by (simp add: createAgent_def)

lemma loopBody_Some_done:
  assumes "loopBody config maxLoops' loopCount w = (Success (Some r), w')"
  shows "done r"
proof (cases "capabilities config = []")
  case True
  with assms show ?thesis by (auto simp: loopBody_no_capabilities)
next
  case False
  show ?thesis
  proof (cases "Array_get (capabilities config) (selectionIndex config w)")
    case None
    with False assms show ?thesis by (simp add: loopBody_out_of_bounds)
  next
    case (Some capability)
    obtain x w3 where d: "dispatch capability (selecting maxLoops' loopCount w) = (x, w3)"
      by (cases "dispatch capability (selecting maxLoops' loopCount w)")
    from assms show ?thesis
      unfolding loopBody_dispatch [OF False Some]
      by (cases x) (auto simp: flatMap_def d succeed_def addMessage_def split: if_splits)
  qed
qed

subsection \<open>The loop of an Agent\<close>

lemma execute_createAgent:
  "Agent.execute (createAgent config) options w
   = agentLoop config (case maxLoops options of None \<Rightarrow> 10 | Some n \<Rightarrow> n) 0
       (push (''Starting agent: '' @ AgentConfig.name config) w)"
  by (simp add: createAgent_def flatMap_addMessage)

lemma agentLoop_exhausted:
  assumes "\<not> loopCount < maxLoops'"
  shows "agentLoop config maxLoops' loopCount w
         = (Success (exhausted maxLoops'),
            push (''Agent reached max loops ('' @ showInt maxLoops' @ '')'') w)"
  using assms by (simp add: agentLoop.simps flatMap_addMessage succeed_def exhausted_def)

lemma agentLoop_return:
  assumes "loopCount < maxLoops'"
      and "loopBody config maxLoops' loopCount w = (Success (Some r), w')"
  shows "agentLoop config maxLoops' loopCount w = (Success r, w')"
  using assms by (simp add: agentLoop.simps [of config maxLoops' loopCount w])

lemma agentLoop_continue:
  assumes "loopCount < maxLoops'"
      and "loopBody config maxLoops' loopCount w = (Success None, w')"
  shows "agentLoop config maxLoops' loopCount w = agentLoop config maxLoops' (loopCount + 1) w'"
  using assms by (simp add: agentLoop.simps [of config maxLoops' loopCount w])

lemma agentLoop_Failure:
  assumes "loopCount < maxLoops'"
      and "loopBody config maxLoops' loopCount w = (Failure e, w')"
  shows "agentLoop config maxLoops' loopCount w = (Failure e, w')"
  using assms by (simp add: agentLoop.simps [of config maxLoops' loopCount w])

lemma agentLoop_Die:
  assumes "loopCount < maxLoops'"
      and "loopBody config maxLoops' loopCount w = (Die d, w')"
  shows "agentLoop config maxLoops' loopCount w = (Die d, w')"
  using assms by (simp add: agentLoop.simps [of config maxLoops' loopCount w])

lemma agentLoop_Success_done:
  "agentLoop config maxLoops' loopCount w = (Success r, w') \<Longrightarrow> done r"
proof (induction config maxLoops' loopCount w rule: agentLoop.induct)
  case (1 config maxLoops' loopCount w)
  show ?case
  proof (cases "loopCount < maxLoops'")
    case False
    with "1.prems" show ?thesis by (auto simp: agentLoop_exhausted exhausted_def)
  next
    case True
    obtain x w1 where b: "loopBody config maxLoops' loopCount w = (x, w1)"
      by (cases "loopBody config maxLoops' loopCount w")
    show ?thesis
    proof (cases x)
      case (Success y)
      show ?thesis
      proof (cases y)
        case None
        with True b Success "1.prems" "1.IH" show ?thesis
          by (simp add: agentLoop_continue)
      next
        case (Some r')
        with True b Success "1.prems" have "r' = r"
          by (simp add: agentLoop_return)
        with b Success Some show ?thesis
          using loopBody_Some_done by blast
      qed
    next
      case (Failure e)
      with True b "1.prems" show ?thesis by (simp add: agentLoop_Failure)
    next
      case (Die d)
      with True b "1.prems" show ?thesis by (simp add: agentLoop_Die)
    qed
  qed
qed

subsection \<open>An Agent with a single Action that is never done\<close>

lemma unitRandom_selecting: "unitRandom w \<Longrightarrow> unitRandom (selecting maxLoops' loopCount w)"
  by (simp add: unitRandom_def selecting_def)

lemma unitRandom_push: "unitRandom w \<Longrightarrow> unitRandom (push m w)"
  by (simp add: unitRandom_def)

lemma selectionIndex_single:
  assumes "unitRandom w" and "length (capabilities config) = 1"
  shows "selectionIndex config w = 0"
proof -
  from assms(1) have "0 \<le> randomValues w (randomCount w)" "randomValues w (randomCount w) < 1"
    by (simp_all add: unitRandom_def)
  then have "\<lfloor>randomValues w (randomCount w)\<rfloor> = 0" by linarith
  with assms(2) show ?thesis by (simp add: selectionIndex_def)
qed

lemma loopBody_single_action:
  assumes caps: "capabilities config = [ActionCap action]"
      and u: "unitRandom w"
      and h: "Action.handle action []
                (push (''Executing action: '' @ Action.name action)
                   (selecting maxLoops' loopCount w)) = (Success r, w')"
      and nd: "\<not> done r"
  shows "loopBody config maxLoops' loopCount w = (Success None, w')"
proof -
  have ne: "capabilities config \<noteq> []" using caps by simp
  have "selectionIndex config w = 0"
    using u caps by (simp add: selectionIndex_single)
  then have g: "Array_get (capabilities config) (selectionIndex config w) = Some (ActionCap action)"
    using caps by (simp add: Array_get_def)
  show ?thesis
    unfolding loopBody_dispatch [OF ne g]
    using h nd by (simp add: flatMap_def dispatch_ActionCap succeed_def)
qed

lemma agentLoop_single_action:
  assumes caps: "capabilities config = [ActionCap action]"
      and always: "\<And>v. unitRandom v \<Longrightarrow>
                     \<exists>r v'. Action.handle action [] v = (Success r, v') \<and> \<not> done r \<and> unitRandom v'"
      and u: "unitRandom w"
  shows "agentLoop config maxLoops' loopCount w
         = (Success (exhausted maxLoops'),
            push (''Agent reached max loops ('' @ showInt maxLoops' @ '')'')
              (foldl (actionIteration action maxLoops') w [loopCount..maxLoops' - 1]))"
  using caps u
proof (induction config maxLoops' loopCount w rule: agentLoop.induct)
  case (1 config maxLoops' loopCount w)
  show ?case
  proof (cases "loopCount < maxLoops'")
    case False
    then have "[loopCount..maxLoops' - 1] = []" by simp
    with False show ?thesis by (simp add: agentLoop_exhausted)
  next
    case True
    let ?v = "push (''Executing action: '' @ Action.name action) (selecting maxLoops' loopCount w)"
    have "unitRandom ?v"
      using "1.prems"(2) by (simp add: unitRandom_push unitRandom_selecting)
    then obtain r w' where
      h: "Action.handle action [] ?v = (Success r, w')" and nd: "\<not> done r" and u': "unitRandom w'"
      using always by blast
    have b: "loopBody config maxLoops' loopCount w = (Success None, w')"
      using "1.prems" h nd by (rule loopBody_single_action)
    have it: "actionIteration action maxLoops' w loopCount = w'"
      using h by (simp add: actionIteration_def)
    have up: "[loopCount..maxLoops' - 1] = loopCount # [loopCount + 1..maxLoops' - 1]"
      using True by (simp add: upto_rec1)
    have "agentLoop config maxLoops' loopCount w = agentLoop config maxLoops' (loopCount + 1) w'"
      using True b by (rule agentLoop_continue)
    also have "\<dots> = (Success (exhausted maxLoops'),
            push (''Agent reached max loops ('' @ showInt maxLoops' @ '')'')
              (foldl (actionIteration action maxLoops') w' [loopCount + 1..maxLoops' - 1]))"
      using "1.IH" [OF True b [symmetric] refl refl "1.prems"(1) u'] .
    finally show ?thesis by (simp add: up it)
  qed
qed

lemma execute_single_action:
  assumes "capabilities config = [ActionCap action]"
      and "\<forall>v. unitRandom v \<longrightarrow>
             (\<exists>r v'. Action.handle action [] v = (Success r, v') \<and> \<not> done r \<and> unitRandom v')"
      and "unitRandom w"
  shows "Agent.execute (createAgent config) \<lparr>maxLoops = Some N\<rparr> w
         = (Success (exhausted N),
            push (''Agent reached max loops ('' @ showInt N @ '')'')
              (foldl (actionIteration action N)
                 (push (''Starting agent: '' @ AgentConfig.name config) w) [0..N - 1]))"
proof -
  have "unitRandom (push (''Starting agent: '' @ AgentConfig.name config) w)"
    using assms(3) by (rule unitRandom_push)
  with assms(1,2) have "agentLoop config N 0 (push (''Starting agent: '' @ AgentConfig.name config) w)
         = (Success (exhausted N),
            push (''Agent reached max loops ('' @ showInt N @ '')'')
              (foldl (actionIteration action N)
                 (push (''Starting agent: '' @ AgentConfig.name config) w) [0..N - 1]))"
    by (intro agentLoop_single_action) auto
  then show ?thesis
    by (simp add: execute_createAgent)
qed

lemma capabilities_looperConfig:
  "capabilities looperConfig = [ActionCap (countingStub ''Stub'' False ''again'')]"
  by (simp add: capabilities_def looperConfig_def orEmpty_def)

lemma unitRandom_world0: "unitRandom world0"
  by (simp add: unitRandom_def world0_def startWorld_def emptyWorld_def AgentStateService_def)

lemma countingStub_never_done:
  "\<forall>v. unitRandom v \<longrightarrow>
     (\<exists>r v'. Action.handle (countingStub n False x) [] v = (Success r, v')
        \<and> \<not> done r \<and> unitRandom v')"
  by (simp add: handle_countingStub unitRandom_def)

lemma capabilities_parentConfig:
  "capabilities parentConfig = [AgentCap (createAgent looperConfig)]"
  by (simp add: capabilities_def parentConfig_def orEmpty_def)

lemma services_world0: "services world0 = 0" "randomCount world0 = 0" "randomValues world0 n = 0"
  by (simp_all add: world0_def startWorld_def emptyWorld_def AgentStateService_def)

lemma capabilities_responderConfig:
  "capabilities responderConfig = [ActionCap (countingStub ''Respond'' True ''hi'')]"
  by (simp add: capabilities_def responderConfig_def orEmpty_def)

subsection \<open>What the loop of an Agent writes to the store\<close>

lemma history_push: "history (push m w) = history w @ [m]"
  by (simp add: history_def readArray_def push_def)

lemma history_selecting:
  "history (selecting maxLoops' loopCount w) = history w @ [loopMessage maxLoops' loopCount]"
  by (simp add: history_def readArray_def push_def selecting_def)

lemma executionState_selecting [simp]:
  "executionState (selecting maxLoops' loopCount w) = executionState w"
  by (simp add: selecting_def)

lemma dispatch_inner: "dispatch c w = inner c (push (dispatchMessage c) w)"
  by (cases c) (simp_all add: dispatch_def inner_def dispatchMessage_def flatMap_addMessage)

lemma Array_get_Some_mem: "Array_get xs i = Some x \<Longrightarrow> x \<in> set xs"
  by (auto simp: Array_get_def split: if_splits)

lemma isTraceMessage_loop:
  "0 \<le> loopCount \<Longrightarrow> loopCount < maxLoops'
   \<Longrightarrow> isTraceMessage config maxLoops' (loopMessage maxLoops' loopCount)"
  by (simp add: isTraceMessage_def)

lemma isTraceMessage_dispatch:
  "c \<in> set (capabilities config) \<Longrightarrow> isTraceMessage config maxLoops' (dispatchMessage c)"
  by (simp add: isTraceMessage_def)

lemma dispatch_store:
  assumes "appendsOnly M (inner c)" and "dispatch c w = (x, w')"
  shows "executionState w' = executionState w
         \<and> (\<exists>added. history w' = history w @ dispatchMessage c # added
               \<and> (\<forall>message\<in>set added. M message))"
proof -
  let ?v = "push (dispatchMessage c) w"
  from assms(2) have w': "w' = snd (inner c ?v)"
    by (simp add: dispatch_inner)
  from assms(1) obtain added where
    "executionState (snd (inner c ?v)) = executionState ?v"
    "history (snd (inner c ?v)) = history ?v @ added"
    "\<forall>message\<in>set added. M message"
    unfolding appendsOnly_def by blast
  with w' have "executionState w' = executionState w"
    and "history w' = history w @ dispatchMessage c # added \<and> (\<forall>message\<in>set added. M message)"
    by (simp_all add: history_push)
  then show ?thesis by blast
qed

lemma loopBody_store:
  assumes pres: "\<forall>c\<in>set (capabilities config). appendsOnly M (inner c)"
      and range: "0 \<le> loopCount" "loopCount < maxLoops'"
      and body: "loopBody config maxLoops' loopCount w = (y, w')"
  shows "executionState w' = executionState w
         \<and> (\<exists>fixed. (\<forall>message\<in>set fixed. isTraceMessage config maxLoops' message \<or> M message)
              \<and> (history w' = history w @ fixed
                 \<or> (\<exists>r. y = Success (Some r) \<and> done r
                      \<and> history w' = history w @ fixed
                                    @ [''Completed with result: '' @ ActionReturn.result r])))"
proof (cases "capabilities config = []")
  case True
  with body have "w' = push (loopMessage maxLoops' loopCount) w"
    by (simp add: loopBody_no_capabilities)
  then have "executionState w' = executionState w"
    and "history w' = history w @ [loopMessage maxLoops' loopCount]"
    by (simp_all add: history_push)
  moreover have "\<forall>message\<in>set [loopMessage maxLoops' loopCount].
                   isTraceMessage config maxLoops' message \<or> M message"
    using range by (simp add: isTraceMessage_loop)
  ultimately show ?thesis by blast
next
  case False
  show ?thesis
  proof (cases "Array_get (capabilities config) (selectionIndex config w)")
    case None
    with False body have "w' = selecting maxLoops' loopCount w"
      by (simp add: loopBody_out_of_bounds)
    then have "executionState w' = executionState w"
      and "history w' = history w @ [loopMessage maxLoops' loopCount]"
      by (simp_all add: history_selecting)
    moreover have "\<forall>message\<in>set [loopMessage maxLoops' loopCount].
                     isTraceMessage config maxLoops' message \<or> M message"
      using range by (simp add: isTraceMessage_loop)
    ultimately show ?thesis by blast
  next
    case (Some c)
    obtain x u where d: "dispatch c (selecting maxLoops' loopCount w) = (x, u)"
      by (cases "dispatch c (selecting maxLoops' loopCount w)")
    have mem: "c \<in> set (capabilities config)"
      using Some by (rule Array_get_Some_mem)
    with pres have "appendsOnly M (inner c)" by blast
    from dispatch_store [OF this d]
    obtain added where eu: "executionState u = executionState w"
      and hu0: "history u = history (selecting maxLoops' loopCount w) @ dispatchMessage c # added"
      and ad: "\<forall>message\<in>set added. M message"
      by auto
    define fixed where "fixed = loopMessage maxLoops' loopCount # dispatchMessage c # added"
    have hu: "history u = history w @ fixed"
      using hu0 by (simp add: fixed_def history_selecting)
    have tr: "\<forall>message\<in>set fixed. isTraceMessage config maxLoops' message \<or> M message"
      using range mem ad by (simp add: fixed_def isTraceMessage_loop isTraceMessage_dispatch)
    have b: "(y, w') = flatMap (dispatch c) (\<lambda>result.
             if done result
             then flatMap (addMessage (''Completed with result: '' @ ActionReturn.result result))
                    (\<lambda>_. succeed (Some result))
             else succeed None)
             (selecting maxLoops' loopCount w)"
      using body loopBody_dispatch [OF False Some, of maxLoops' loopCount] by simp
    show ?thesis
    proof (cases x)
      case (Success r)
      show ?thesis
      proof (cases "done r")
        case True
        with b d Success have "y = Success (Some r)"
          and "w' = push (''Completed with result: '' @ ActionReturn.result r) u"
          by (simp_all add: flatMap_def addMessage_def succeed_def)
        with hu eu True have "executionState w' = executionState w"
          and "y = Success (Some r) \<and> done r
               \<and> history w' = history w @ fixed
                               @ [''Completed with result: '' @ ActionReturn.result r]"
          by (simp_all add: history_push)
        with tr show ?thesis by blast
      next
        case False
        with b d Success have "w' = u"
          by (simp add: flatMap_def succeed_def)
        with hu eu tr show ?thesis by blast
      qed
    next
      case (Failure e)
      with b d have "w' = u" by (simp add: flatMap_def)
      with hu eu tr show ?thesis by blast
    next
      case (Die msg)
      with b d have "w' = u" by (simp add: flatMap_def)
      with hu eu tr show ?thesis by blast
    qed
  qed
qed

lemma agentLoop_store:
  assumes "\<forall>c\<in>set (capabilities config). appendsOnly M (inner c)"
      and "0 \<le> loopCount"
      and "agentLoop config maxLoops' loopCount w = (x, w')"
  shows "executionState w' = executionState w
         \<and> (\<exists>fixed. (\<forall>message\<in>set fixed. isTraceMessage config maxLoops' message \<or> M message)
              \<and> (history w' = history w @ fixed
                 \<or> (\<exists>r. x = Success r \<and> done r
                      \<and> history w' = history w @ fixed
                                    @ [''Completed with result: '' @ ActionReturn.result r])))"
  using assms
proof (induction config maxLoops' loopCount w rule: agentLoop.induct)
  case (1 config maxLoops' loopCount w)
  show ?case
  proof (cases "loopCount < maxLoops'")
    case False
    with "1.prems"(3)
    have "w' = push (''Agent reached max loops ('' @ showInt maxLoops' @ '')'') w"
      by (simp add: agentLoop_exhausted)
    then have "executionState w' = executionState w"
      and "history w' = history w @ [''Agent reached max loops ('' @ showInt maxLoops' @ '')'']"
      by (simp_all add: history_push)
    moreover have "\<forall>message\<in>set [''Agent reached max loops ('' @ showInt maxLoops' @ '')''].
                     isTraceMessage config maxLoops' message \<or> M message"
      by (simp add: isTraceMessage_def)
    ultimately show ?thesis by blast
  next
    case True
    obtain y u where b: "loopBody config maxLoops' loopCount w = (y, u)"
      by (cases "loopBody config maxLoops' loopCount w")
    from loopBody_store [OF "1.prems"(1,2) True b]
    obtain fixed where eu: "executionState u = executionState w"
      and tr: "\<forall>message\<in>set fixed. isTraceMessage config maxLoops' message \<or> M message"
      and hu: "history u = history w @ fixed
               \<or> (\<exists>r. y = Success (Some r) \<and> done r
                    \<and> history u = history w @ fixed
                                  @ [''Completed with result: '' @ ActionReturn.result r])"
      by blast
    show ?thesis
    proof (cases y)
      case (Success z)
      show ?thesis
      proof (cases z)
        case None
        with Success hu have hu': "history u = history w @ fixed" by simp
        have next_loop: "agentLoop config maxLoops' (loopCount + 1) u = (x, w')"
          using agentLoop_continue [OF True, of config w u] b Success None "1.prems"(3) by simp
        have "0 \<le> loopCount + 1" using "1.prems"(2) by simp
        from "1.IH" [OF True b [symmetric] Success None "1.prems"(1) this next_loop]
        obtain fixed' where ew: "executionState w' = executionState u"
          and tr': "\<forall>message\<in>set fixed'. isTraceMessage config maxLoops' message \<or> M message"
          and hw: "history w' = history u @ fixed'
                   \<or> (\<exists>r. x = Success r \<and> done r
                        \<and> history w' = history u @ fixed'
                                       @ [''Completed with result: '' @ ActionReturn.result r])"
          by blast
        have "\<forall>message\<in>set (fixed @ fixed').
                isTraceMessage config maxLoops' message \<or> M message"
          using tr tr' by auto
        moreover have "history w' = history w @ (fixed @ fixed')
                   \<or> (\<exists>r. x = Success r \<and> done r
                        \<and> history w' = history w @ (fixed @ fixed')
                                       @ [''Completed with result: '' @ ActionReturn.result r])"
          using hw hu' by auto
        moreover have "executionState w' = executionState w"
          using ew eu by simp
        ultimately show ?thesis by blast
      next
        case (Some r)
        with Success True b "1.prems"(3) have "x = Success r" and "w' = u"
          by (simp_all add: agentLoop_return)
        with eu tr hu Success Some show ?thesis by blast
      qed
    next
      case (Failure e)
      with True b "1.prems"(3) have "w' = u" by (simp add: agentLoop_Failure)
      with eu tr hu Failure show ?thesis by blast
    next
      case (Die d)
      with True b "1.prems"(3) have "w' = u" by (simp add: agentLoop_Die)
      with eu tr hu Die show ?thesis by blast
    qed
  qed
qed

lemma execute_store:
  assumes "\<forall>c\<in>set (capabilities config). appendsOnly M (inner c)"
      and "Agent.execute (createAgent config) options w = (x, w')"
  shows "executionState w' = executionState w
         \<and> (\<exists>fixed. (\<forall>message\<in>set fixed.
                        isTraceMessage config (case maxLoops options of None \<Rightarrow> 10 | Some n \<Rightarrow> n)
                          message \<or> M message)
              \<and> (history w' = history w @ fixed
                 \<or> (\<exists>r. x = Success r \<and> done r
                      \<and> history w' = history w @ fixed
                                    @ [''Completed with result: '' @ ActionReturn.result r])))"
proof -
  let ?limit = "case maxLoops options of None \<Rightarrow> 10 | Some n \<Rightarrow> n"
  let ?start = "''Starting agent: '' @ AgentConfig.name config"
  have le: "(0::int) \<le> 0" by simp
  have run: "agentLoop config ?limit 0 (push ?start w) = (x, w')"
    using assms(2) by (simp add: execute_createAgent)
  from agentLoop_store [OF assms(1) le run]
  obtain fixed where ew: "executionState w' = executionState (push ?start w)"
    and tr: "\<forall>message\<in>set fixed. isTraceMessage config ?limit message \<or> M message"
    and hw: "history w' = history (push ?start w) @ fixed
             \<or> (\<exists>r. x = Success r \<and> done r
                  \<and> history w' = history (push ?start w) @ fixed
                                 @ [''Completed with result: '' @ ActionReturn.result r])"
    by blast
  have "\<forall>message\<in>set (?start # fixed). isTraceMessage config ?limit message \<or> M message"
    using tr by (simp add: isTraceMessage_def)
  moreover have "history w' = history w @ (?start # fixed)
             \<or> (\<exists>r. x = Success r \<and> done r
                  \<and> history w' = history w @ (?start # fixed)
                                 @ [''Completed with result: '' @ ActionReturn.result r])"
    using hw by (simp add: history_push)
  moreover have "executionState w' = executionState w"
    using ew by simp
  ultimately show ?thesis by blast
qed

lemma isCompletionMessage_completed:
  "isCompletionMessage (''Completed with result: '' @ r)"
  by (simp add: isCompletionMessage_def)

lemma subagent_appendsOnly:
  assumes "\<forall>c\<in>set (capabilities sub). appendsOnly M (inner c)"
  shows "appendsOnly
           (\<lambda>message. isTraceMessage sub 5 message \<or> M message \<or> isCompletionMessage message)
           (inner (AgentCap (createAgent sub)))"
  unfolding appendsOnly_def
proof (intro allI)
  fix w
  let ?m = "inner (AgentCap (createAgent sub)) :: (ActionReturn, 'a error, 'b) Effect"
  have run: "Agent.execute (createAgent sub) \<lparr>maxLoops = Some 5\<rparr> w = (fst (?m w), snd (?m w))"
    by (simp add: inner_def)
  have lim: "(case maxLoops \<lparr>maxLoops = Some (5::int)\<rparr> of None \<Rightarrow> 10 | Some n \<Rightarrow> n) = 5"
    by simp
  from execute_store [OF assms run, unfolded lim]
  obtain fixed where ew: "executionState (snd (?m w)) = executionState w"
    and tr: "\<forall>message\<in>set fixed. isTraceMessage sub 5 message \<or> M message"
    and hw0: "history (snd (?m w)) = history w @ fixed
             \<or> (\<exists>r. fst (?m w) = Success r \<and> done r
                   \<and> history (snd (?m w)) = history w @ fixed
                                 @ [''Completed with result: '' @ ActionReturn.result r])"
    by blast
  from hw0 have hw: "history (snd (?m w)) = history w @ fixed
             \<or> (\<exists>r::ActionReturn. history (snd (?m w)) = history w @ fixed
                                 @ [''Completed with result: '' @ ActionReturn.result r])"
    by blast
  from hw show "executionState (snd (?m w)) = executionState w
         \<and> (\<exists>added. history (snd (?m w)) = history w @ added
               \<and> (\<forall>message\<in>set added.
                     isTraceMessage sub 5 message \<or> M message \<or> isCompletionMessage message))"
  proof
    assume "history (snd (?m w)) = history w @ fixed"
    with ew tr show ?thesis by blast
  next
    assume "\<exists>r::ActionReturn. history (snd (?m w)) = history w @ fixed
                                 @ [''Completed with result: '' @ ActionReturn.result r]"
    then obtain r :: ActionReturn where h0: "history (snd (?m w))
        = history w @ fixed @ [''Completed with result: '' @ ActionReturn.result r]"
      by blast
    then have h: "history (snd (?m w))
        = history w @ (fixed @ [''Completed with result: '' @ ActionReturn.result r])"
      by (simp only: append_assoc)
    have "\<forall>message\<in>set (fixed @ [''Completed with result: '' @ ActionReturn.result r]).
            isTraceMessage sub 5 message \<or> M message \<or> isCompletionMessage message"
      using tr isCompletionMessage_completed by auto
    with ew h show ?thesis by blast
  qed
qed

subsection \<open>The result string of a return that is not done\<close>

lemma orEmpty_map_option: "orEmpty (map_option (map f) xs) = map f (orEmpty xs)"
  by (cases xs) (simp_all add: orEmpty_def)

lemma capabilities_withUndoneResults:
  "capabilities (withUndoneResults g config) = map (rewriting g) (capabilities config)"
  by (simp add: capabilities_def withUndoneResults_def orEmpty_map_option rewriting_def comp_def)

lemma name_withUndoneResults [simp]:
  "AgentConfig.name (withUndoneResults g config) = AgentConfig.name config"
  by (simp add: withUndoneResults_def)

lemma Array_get_map: "Array_get (map f xs) i = map_option f (Array_get xs i)"
proof (cases "i < 0 \<or> int (length xs) \<le> i")
  case True
  then show ?thesis by (simp add: Array_get_def)
next
  case False
  then have "nat i < length xs" by linarith
  with False show ?thesis by (simp add: Array_get_def)
qed

lemma selectionIndex_withUndoneResults [simp]:
  "selectionIndex (withUndoneResults g config) w = selectionIndex config w"
  by (simp add: selectionIndex_def capabilities_withUndoneResults)

lemma inner_rewriting: "inner (rewriting g c) = mapEffect (inner c) (rewriteUndone g)"
  by (cases c) (simp_all add: inner_def rewriting_def)

lemma dispatchMessage_rewriting [simp]: "dispatchMessage (rewriting g c) = dispatchMessage c"
  by (cases c) (simp_all add: dispatchMessage_def rewriting_def)

lemma dispatch_rewriting: "dispatch (rewriting g c) = mapEffect (dispatch c) (rewriteUndone g)"
  by (rule ext) (simp add: dispatch_inner inner_rewriting mapEffect_def flatMap_def)

lemma done_rewriteUndone [simp]: "done (rewriteUndone g r) = done r"
  by (simp add: rewriteUndone_def)

lemma rewriteUndone_done: "done r \<Longrightarrow> rewriteUndone g r = r"
  by (simp add: rewriteUndone_def)

lemma flatMap_mapEffect: "flatMap (mapEffect m f) k = flatMap m (\<lambda>a. k (f a))"
  by (rule ext) (simp add: mapEffect_def flatMap_def succeed_def split: prod.splits Exit.splits)

lemma completion_rewriteUndone:
  "(\<lambda>a. if done (rewriteUndone g a)
         then flatMap (addMessage (''Completed with result: ''
                                   @ ActionReturn.result (rewriteUndone g a)))
                (\<lambda>_. succeed (Some (rewriteUndone g a)))
         else succeed None)
   = (\<lambda>result. if done result
         then flatMap (addMessage (''Completed with result: '' @ ActionReturn.result result))
                (\<lambda>_. succeed (Some result))
         else (succeed None :: (ActionReturn option, 'e, 'r) Effect))"
proof (rule ext)
  fix a :: ActionReturn
  show "(if done (rewriteUndone g a)
         then flatMap (addMessage (''Completed with result: ''
                                   @ ActionReturn.result (rewriteUndone g a)))
                (\<lambda>_. succeed (Some (rewriteUndone g a)))
         else succeed None)
      = (if done a
         then flatMap (addMessage (''Completed with result: '' @ ActionReturn.result a))
                (\<lambda>_. succeed (Some a))
         else (succeed None :: (ActionReturn option, 'e, 'r) Effect))"
    by (cases "done a") (simp_all add: rewriteUndone_done)
qed

lemma loopBody_withUndoneResults:
  "loopBody (withUndoneResults g config) maxLoops' loopCount w
   = loopBody config maxLoops' loopCount w"
proof (cases "capabilities config = []")
  case True
  then have "capabilities (withUndoneResults g config) = []"
    by (simp add: capabilities_withUndoneResults)
  with True show ?thesis by (simp add: loopBody_no_capabilities)
next
  case False
  then have ne: "capabilities (withUndoneResults g config) \<noteq> []"
    by (simp add: capabilities_withUndoneResults)
  show ?thesis
  proof (cases "Array_get (capabilities config) (selectionIndex config w)")
    case None
    then have "Array_get (capabilities (withUndoneResults g config))
                 (selectionIndex (withUndoneResults g config) w) = None"
      by (simp add: capabilities_withUndoneResults Array_get_map)
    from loopBody_out_of_bounds [OF ne this] loopBody_out_of_bounds [OF False None]
    show ?thesis by (simp add: capabilities_withUndoneResults)
  next
    case (Some c)
    then have "Array_get (capabilities (withUndoneResults g config))
                 (selectionIndex (withUndoneResults g config) w) = Some (rewriting g c)"
      by (simp add: capabilities_withUndoneResults Array_get_map)
    from loopBody_dispatch [OF ne this] loopBody_dispatch [OF False Some]
    show ?thesis
      by (simp only: dispatch_rewriting flatMap_mapEffect completion_rewriteUndone
          selectionIndex_withUndoneResults)
  qed
qed

lemma agentLoop_withUndoneResults:
  "agentLoop (withUndoneResults g config) maxLoops' loopCount w
   = agentLoop config maxLoops' loopCount w"
proof (induction config maxLoops' loopCount w rule: agentLoop.induct)
  case (1 config maxLoops' loopCount w)
  show ?case
  proof (cases "loopCount < maxLoops'")
    case False
    then show ?thesis by (simp add: agentLoop_exhausted)
  next
    case True
    obtain y u where b: "loopBody config maxLoops' loopCount w = (y, u)"
      by (cases "loopBody config maxLoops' loopCount w")
    then have b': "loopBody (withUndoneResults g config) maxLoops' loopCount w = (y, u)"
      by (simp add: loopBody_withUndoneResults)
    show ?thesis
    proof (cases y)
      case (Success z)
      show ?thesis
      proof (cases z)
        case None
        from "1.IH" [OF True b [symmetric] Success None] True b b' Success None
        show ?thesis by (simp add: agentLoop_continue)
      next
        case (Some r)
        with True b b' Success show ?thesis by (simp add: agentLoop_return)
      qed
    next
      case (Failure e)
      with True b b' show ?thesis by (simp add: agentLoop_Failure)
    next
      case (Die d)
      with True b b' show ?thesis by (simp add: agentLoop_Die)
    qed
  qed
qed

lemma execute_withUndoneResults:
  "Agent.execute (createAgent (withUndoneResults g config)) options w
   = Agent.execute (createAgent config) options w"
  by (simp add: execute_createAgent agentLoop_withUndoneResults)

lemma appendsOnly_looper:
  "\<forall>c\<in>set (capabilities looperConfig). appendsOnly (\<lambda>_. False) (inner c)"
  by (simp add: capabilities_looperConfig inner_def appendsOnly_def handle_countingStub
      history_def readArray_def)

lemma appendsOnly_responder:
  "\<forall>c\<in>set (capabilities responderConfig). appendsOnly (\<lambda>_. False) (inner c)"
  by (simp add: capabilities_responderConfig inner_def appendsOnly_def handle_countingStub
      history_def readArray_def)

subsection \<open>Runs of the example Agents\<close>

lemma Array_get_Nil: "Array_get [] i = None"
  by (auto simp: Array_get_def)

lemma dispatch_WorkflowCap:
  "dispatch (WorkflowCap workflow) w
   = Workflow.execute workflow (push (''Executing workflow: '' @ Workflow.name workflow) w)"
  by (simp add: dispatch_def flatMap_addMessage)

lemma loopBody_not_done:
  assumes "capabilities config \<noteq> []"
      and "Array_get (capabilities config) (selectionIndex config w) = Some capability"
      and "dispatch capability (selecting maxLoops' loopCount w) = (Success r, w')"
      and "\<not> done r"
  shows "loopBody config maxLoops' loopCount w = (Success None, w')"
  unfolding loopBody_dispatch [OF assms(1,2)]
  using assms(3,4) by (simp add: flatMap_def succeed_def)

lemma execute_pass_done:
  assumes reach: "agentLoop config (case maxLoops options of None \<Rightarrow> 10 | Some n \<Rightarrow> n) 0
                    (push (''Starting agent: '' @ AgentConfig.name config) w)
                  = agentLoop config (case maxLoops options of None \<Rightarrow> 10 | Some n \<Rightarrow> n) k u"
      and lt: "k < (case maxLoops options of None \<Rightarrow> 10 | Some n \<Rightarrow> n)"
      and get: "Array_get (capabilities config) (selectionIndex config u) = Some capability"
      and run: "dispatch capability
                  (selecting (case maxLoops options of None \<Rightarrow> 10 | Some n \<Rightarrow> n) k u)
                = (Success r, w')"
      and d: "done r"
  shows "Agent.execute (createAgent config) options w
         = (Success r, push (''Completed with result: '' @ ActionReturn.result r) w')"
proof -
  have ne: "capabilities config \<noteq> []"
    using get by (auto simp: Array_get_Nil)
  from lt loopBody_done [OF ne get run d]
  have "agentLoop config (case maxLoops options of None \<Rightarrow> 10 | Some n \<Rightarrow> n) k u
        = (Success r, push (''Completed with result: '' @ ActionReturn.result r) w')"
    by (rule agentLoop_return)
  with reach show ?thesis
    by (simp only: execute_createAgent)
qed

lemma history_services: "history (w\<lparr>services := n\<rparr>) = history w"
  by (simp add: history_def readArray_def)

lemma selecting_fields:
  "services (selecting maxLoops' loopCount w) = services w"
  "randomValues (selecting maxLoops' loopCount w) = randomValues w"
  "randomCount (selecting maxLoops' loopCount w) = Suc (randomCount w)"
  by (simp_all add: selecting_def)

lemma loopMessage_values:
  "loopMessage 10 0 = ''Agent loop 1/10''" "loopMessage 10 1 = ''Agent loop 2/10''"
  "loopMessage 5 0 = ''Agent loop 1/5''"
  by (simp_all add: loopMessage_def showInt_def showNat.simps)

lemma execute_single_done_action:
  assumes caps: "capabilities config = [ActionCap action]"
      and u: "unitRandom w"
      and lt: "0 < (case maxLoops options of None \<Rightarrow> 10 | Some n \<Rightarrow> n)"
      and run: "Action.handle action []
                  (push (''Executing action: '' @ Action.name action)
                     (selecting (case maxLoops options of None \<Rightarrow> 10 | Some n \<Rightarrow> n) 0
                        (push (''Starting agent: '' @ AgentConfig.name config) w)))
                = (Success r, w')"
      and d: "done r"
  shows "Agent.execute (createAgent config) options w
         = (Success r, push (''Completed with result: '' @ ActionReturn.result r) w')"
proof -
  let ?L = "case maxLoops options of None \<Rightarrow> 10 | Some n \<Rightarrow> n"
  let ?s = "push (''Starting agent: '' @ AgentConfig.name config) w"
  have "selectionIndex config ?s = 0"
    using u caps by (simp add: selecting_fields history_services selectionIndex_single)
  then have get: "Array_get (capabilities config) (selectionIndex config ?s)
                  = Some (ActionCap action)"
    using caps by (simp add: selecting_fields history_services Array_get_def)
  have di: "dispatch (ActionCap action) (selecting ?L 0 ?s) = (Success r, w')"
    using run by (simp only: dispatch_ActionCap)
  show ?thesis
    using refl lt get di d by (rule execute_pass_done)
qed

lemma name_responderConfig: "AgentConfig.name responderConfig = ''Support Agent''"
  by (simp add: selecting_fields history_services responderConfig_def)

lemma execute_responder:
  assumes "unitRandom v"
  shows "Agent.execute (createAgent responderConfig) \<lparr>maxLoops = Some 5\<rparr> v
         = (Success \<lparr>done = True, result = ''hi''\<rparr>,
            push ''Completed with result: hi''
              ((push ''Executing action: Respond''
                  (selecting 5 0 (push ''Starting agent: Support Agent'' v)))
               \<lparr>services := Suc (services v)\<rparr>))"
proof -
  have lt: "0 < (case maxLoops \<lparr>maxLoops = Some (5::int)\<rparr> of None \<Rightarrow> 10 | Some n \<Rightarrow> n)"
    by simp
  have run: "Action.handle (countingStub ''Respond'' True ''hi'') []
                  (push (''Executing action: '' @ Action.name (countingStub ''Respond'' True ''hi''))
                     (selecting (case maxLoops \<lparr>maxLoops = Some (5::int)\<rparr> of None \<Rightarrow> 10 | Some n \<Rightarrow> n) 0
                        (push (''Starting agent: '' @ AgentConfig.name responderConfig) v)))
                = (Success \<lparr>done = True, result = ''hi''\<rparr>,
                   (push ''Executing action: Respond''
                      (selecting 5 0 (push ''Starting agent: Support Agent'' v)))
                   \<lparr>services := Suc (services v)\<rparr>)"
    by (simp add: selecting_fields history_services handle_countingStub name_countingStub name_responderConfig selecting_def)
  have d: "done \<lparr>done = True, result = ''hi''\<rparr>" by simp
  from execute_single_done_action [OF capabilities_responderConfig assms lt run d]
  show ?thesis by simp
qed

lemma execute_stopWorkflow:
  "Workflow.execute (createWorkflow stopWorkflowConfig) v
   = (Success \<lparr>done = True, result = ''stop''\<rparr>, v\<lparr>services := Suc (services v)\<rparr>)"
  by (simp add: selecting_fields history_services createWorkflow_def stopWorkflowConfig_def mapEffect_def first_def
      flatMap_succeed) (simp add: selecting_fields history_services flatMap_def handle_countingStub succeed_def)

lemma name_stopWorkflow: "Workflow.name (createWorkflow stopWorkflowConfig) = ''Stop''"
  by (simp add: selecting_fields history_services createWorkflow_def stopWorkflowConfig_def)

lemma capabilities_twoActionsConfig:
  "capabilities twoActionsConfig
   = [ActionCap (countingStub ''B'' False ''next''), ActionCap (countingStub ''A'' True ''stop'')]"
  by (simp add: selecting_fields history_services capabilities_def twoActionsConfig_def orEmpty_def)

lemma capabilities_workflowOnlyConfig:
  "capabilities workflowOnlyConfig = [WorkflowCap (createWorkflow stopWorkflowConfig)]"
  by (simp add: selecting_fields history_services capabilities_def workflowOnlyConfig_def orEmpty_def)

lemma capabilities_delegatingConfig:
  "capabilities delegatingConfig = [AgentCap (createAgent responderConfig)]"
  by (simp add: selecting_fields history_services capabilities_def delegatingConfig_def orEmpty_def)

lemma world3_fields:
  "randomValues world3 n = (if n = 0 then 1 / 10 else 9 / 10)" "randomCount world3 = 0"
  "services world3 = 0" "history world3 = []"
  by (simp_all add: selecting_fields history_services world3_def startWorld_def emptyWorld_def AgentStateService_def history_def
      readArray_def)

lemma history_world0: "history world0 = []"
  by (simp add: selecting_fields history_services world0_def startWorld_def emptyWorld_def AgentStateService_def history_def
      readArray_def)

lemma execute_delegating:
  "Agent.execute (createAgent delegatingConfig) \<lparr>maxLoops = Some 10\<rparr> world0
   = (Success \<lparr>done = True, result = ''hi''\<rparr>,
      push ''Completed with result: hi''
        (push ''Completed with result: hi''
          ((push ''Executing action: Respond''
              (selecting 5 0
                 (push ''Starting agent: Support Agent''
                    (push ''Delegating to sub-agent: Support Agent''
                       (selecting 10 0 (push ''Starting agent: Front Desk'' world0))))))
           \<lparr>services := 1\<rparr>)))"
proof -
  let ?o = "\<lparr>maxLoops = Some (10::int)\<rparr>"
  let ?sub = "createAgent responderConfig :: (unit, nat) Agent"
  let ?hi = "\<lparr>done = True, result = ''hi''\<rparr>"
  let ?s = "push (''Starting agent: '' @ AgentConfig.name delegatingConfig) world0"
  let ?v = "push ''Delegating to sub-agent: Support Agent''
              (selecting 10 0 (push ''Starting agent: Front Desk'' world0))"
  have L: "(case maxLoops ?o of None \<Rightarrow> 10 | Some n \<Rightarrow> n) = 10" by simp
  have nm: "''Starting agent: '' @ AgentConfig.name delegatingConfig = ''Starting agent: Front Desk''"
    by (simp add: selecting_fields history_services delegatingConfig_def)
  have uv: "unitRandom ?v"
    by (intro unitRandom_push unitRandom_selecting unitRandom_world0)
  have "selectionIndex delegatingConfig ?s = 0"
    unfolding selectionIndex_push
    using unitRandom_world0
    by (rule selectionIndex_single) (simp add: selecting_fields history_services capabilities_delegatingConfig)
  then have get: "Array_get (capabilities delegatingConfig)
                     (selectionIndex delegatingConfig ?s) = Some (AgentCap ?sub)"
    by (simp add: selecting_fields history_services capabilities_delegatingConfig Array_get_def)
  have lt: "0 < (case maxLoops ?o of None \<Rightarrow> 10 | Some n \<Rightarrow> n)" by simp
  have srv: "Suc (services ?v) = 1"
    by (simp add: selecting_fields history_services services_world0)
  have di: "dispatch (AgentCap ?sub) (selecting (case maxLoops ?o of None \<Rightarrow> 10 | Some n \<Rightarrow> n) 0 ?s)
            = (Success ?hi,
               push ''Completed with result: hi''
                 ((push ''Executing action: Respond''
                     (selecting 5 0 (push ''Starting agent: Support Agent'' ?v)))
                  \<lparr>services := 1\<rparr>))"
    using execute_responder [OF uv]
    unfolding srv L nm
    by (simp add: selecting_fields history_services dispatch_AgentCap name_createAgent name_responderConfig)
  have d: "done ?hi" by simp
  from execute_pass_done [OF refl lt get di d]
  show ?thesis by simp
qed

lemma history_delegating:
  "history (snd (Agent.execute (createAgent delegatingConfig) \<lparr>maxLoops = Some 10\<rparr> world0))
   = [''Starting agent: Front Desk'', ''Agent loop 1/10'',
      ''Delegating to sub-agent: Support Agent'', ''Starting agent: Support Agent'',
      ''Agent loop 1/5'', ''Executing action: Respond'', ''Completed with result: hi'',
      ''Completed with result: hi'']"
  unfolding execute_delegating
  by (simp add: selecting_fields history_services history_push history_selecting history_world0 loopMessage_values)

subsection \<open>Actions validate before they run\<close>

text \<open>
  Claim C5. When the raw arguments fail to decode against the parameter schema of an Action
  built with \<open>createAction\<close>, \<open>handle\<close> fails with a \<open>ParseError\<close> carrying the issue and
  leaves the world as it was, whatever the logic \<open>run\<close> of the Action is: \<open>run\<close> is not
  invoked.
\<close>

theorem createAction_parse_error:
  assumes "ActionConfig.Params config a = Inl issue"
  shows "Action.handle (createAction (config\<lparr>ActionConfig.execute := run\<rparr>)) a w
         = (Failure (ParseError issue), w)"
  using assms
  by (simp add: createAction_def flatMap_def mapError_def decodeUnknown_def fail_def)

theorem createAction_parse_error_witness:
  "ActionConfig.Params respondConfig [] = Inl ''Missing or invalid field: response''
   \<and> Action.handle (createAction respondConfig) [] (startWorld (\<lambda>_. 0))
       = (Failure (ParseError ''Missing or invalid field: response''), startWorld (\<lambda>_. 0))
   \<and> services (snd (Action.handle (createAction respondConfig) [] (startWorld (\<lambda>_. 0)))) = 0
   \<and> Action.handle (createAction respondConfig) [(''response'', UStr ''hi'')]
       (startWorld (\<lambda>_. 0))
     = (Success \<lparr>done = True, result = ''hi''\<rparr>, (startWorld (\<lambda>_. 0))\<lparr>services := 1\<rparr>)"
proof -
  have p: "ActionConfig.Params respondConfig [] = Inl ''Missing or invalid field: response''"
    by (simp add: respondConfig_def requireString_def)
  have e: "respondConfig\<lparr>ActionConfig.execute := ActionConfig.execute respondConfig\<rparr>
           = respondConfig"
    by simp
  have s: "services (startWorld (\<lambda>_. 0)) = 0"
    by (simp add: startWorld_def emptyWorld_def AgentStateService_def)
  have ok: "Action.handle (createAction respondConfig) [(''response'', UStr ''hi'')]
              (startWorld (\<lambda>_. 0))
            = (Success \<lparr>done = True, result = ''hi''\<rparr>,
               (startWorld (\<lambda>_. 0))\<lparr>services := 1\<rparr>)"
    by (simp add: createAction_def respondConfig_def requireString_def flatMap_def mapError_def
        decodeUnknown_def succeed_def startWorld_def emptyWorld_def AgentStateService_def)
  from createAction_parse_error
    [OF p, of "ActionConfig.execute respondConfig" "startWorld (\<lambda>_. 0)"]
  show ?thesis using p s ok by (simp only: e) simp
qed

subsection \<open>Sequencing stops at the first step that is done\<close>

text \<open>
  Claim C1. Let a flow be built with \<open>andThen step\<close> from a flow builder that resolves to
  \<open>prevFlow\<close>. For every state and world in which \<open>prevFlow\<close> returns a result that is
  done, the flow returns that very result (same \<open>done\<close>, \<open>result\<close> and \<open>nextState\<close>) and
  ends in the world \<open>prevFlow\<close> ended in, whatever \<open>step\<close> is: the \<open>handle\<close> of \<open>step\<close> is
  not invoked.
\<close>

theorem andThen_short_circuit:
  assumes "previousFlow v = (Success prevFlow, v')"
      and "Flow.execute prevFlow s w = (Success prevResult, w')"
      and "done prevResult"
  shows "\<exists>flow. andThen step previousFlow v = (Success flow, v')
               \<and> Flow.execute flow s w = (Success prevResult, w')"
  using assms by (simp add: andThen_def flatMap_def succeed_def)

theorem andThen_short_circuit_witness:
  "\<exists>flow. andThen (countingStub ''B'' False ''next'') (first (countingStub ''A'' True ''stop''))
            (startWorld (\<lambda>_. 0)) = (Success flow, startWorld (\<lambda>_. 0))
     \<and> Flow.execute flow (UObj []) (startWorld (\<lambda>_. 0))
       = (Success \<lparr>done = True, result = ''stop'', nextState = Some (UObj [])\<rparr>,
          (startWorld (\<lambda>_. 0))\<lparr>services := 1\<rparr>)"
proof -
  let ?w = "startWorld (\<lambda>_. 0)"
  let ?r = "\<lparr>done = True, result = ''stop'', nextState = Some (UObj [])\<rparr>"
  obtain prevFlow where
    h1: "first (countingStub ''A'' True ''stop'') ?w = (Success prevFlow, ?w)" and
    ex: "\<forall>s. Flow.execute prevFlow s =
            flatMap (Action.handle (countingStub ''A'' True ''stop'') [])
              (\<lambda>result. succeed \<lparr>done = done result, result = ActionReturn.result result,
                                  nextState = Some s\<rparr>)"
    using first_resolves by blast
  have h2: "Flow.execute prevFlow (UObj []) ?w = (Success ?r, ?w\<lparr>services := 1\<rparr>)"
    by (simp add: ex flatMap_def handle_countingStub succeed_def startWorld_def emptyWorld_def
        AgentStateService_def)
  have h3: "done ?r" by simp
  show ?thesis
    using andThen_short_circuit
      [where previousFlow = "first (countingStub ''A'' True ''stop'')" and v = ?w
         and step = "countingStub ''B'' False ''next''", OF h1 h2 h3] .
qed

subsection \<open>Done is never turned into not done\<close>

text \<open>
  Claim C2. A result with \<open>done = true\<close> produced by an executed inner capability
  reaches the result of the enclosing component with \<open>done = true\<close>:
  \<^item> \<open>first\<close>: when the \<open>handle\<close> of the step returns done, so does the Flow, with the
    same \<open>result\<close>;
  \<^item> \<open>andThen\<close>: when the previous Flow returns done, the Flow returns that result; when
    the previous Flow is not done and the \<open>handle\<close> of the step returns done, so does the
    Flow, with the same \<open>result\<close>;
  \<^item> \<open>doIf\<close>: the Flow is the Flow of the chosen branch, so a done result of that Flow is
    the result;
  \<^item> a Workflow returns \<open>done = true\<close> and the same \<open>result\<close> when its Flow returns done;
  \<^item> an Agent: when its run has come to pass \<open>k\<close> in world \<open>u\<close> (the first pass is
    \<open>k = 0\<close> in the world after the start message), the pass selects a capability, and
    the \<open>handle\<close> of that Action, the \<open>execute\<close> of that Workflow or the \<open>execute\<close> of that
    sub-agent returns done, then \<open>execute\<close> of the Agent returns that very result.
\<close>

theorem done_propagates_upward:
  "(Action.handle step [] w = (Success r, w') \<and> done r \<longrightarrow>
      (\<exists>f p. first step v = (Success f, v) \<and> Flow.execute f s w = (Success p, w')
             \<and> done p \<and> ActionReturn.result p = ActionReturn.result r))
   \<and> (previousFlow v = (Success prevFlow, v') \<and> Flow.execute prevFlow s w = (Success q, w')
        \<and> done q \<longrightarrow>
      (\<exists>f. andThen step previousFlow v = (Success f, v')
           \<and> Flow.execute f s w = (Success q, w')))
   \<and> (previousFlow v = (Success prevFlow, v') \<and> Flow.execute prevFlow s w = (Success q, u)
        \<and> \<not> done q \<and> Action.handle step [] u = (Success r, w') \<and> done r \<longrightarrow>
      (\<exists>f p. andThen step previousFlow v = (Success f, v')
             \<and> Flow.execute f s w = (Success p, w')
             \<and> done p \<and> ActionReturn.result p = ActionReturn.result r))
   \<and> (previousFlow v = (Success prevFlow, v')
        \<and> (if 0.5 < randomValues v' (randomCount v') then onTrue branches else onFalse branches)
             (succeed prevFlow) (v'\<lparr>randomCount := Suc (randomCount v')\<rparr>) = (Success chosen, v'')
        \<and> Flow.execute chosen s w = (Success q, w') \<and> done q \<longrightarrow>
      (\<exists>f. doIf condition branches previousFlow v = (Success f, v'')
           \<and> Flow.execute f s w = (Success q, w')))
   \<and> (WorkflowConfig.flow wconfig w = (Success resolved, u)
        \<and> Flow.execute resolved (UObj []) u = (Success q, w') \<and> done q \<longrightarrow>
      Workflow.execute (createWorkflow wconfig) w
      = (Success \<lparr>done = True, result = ActionReturn.result q\<rparr>, w'))
   \<and> (agentLoop aconfig (case maxLoops options of None \<Rightarrow> 10 | Some n \<Rightarrow> n) 0
          (push (''Starting agent: '' @ AgentConfig.name aconfig) w)
        = agentLoop aconfig (case maxLoops options of None \<Rightarrow> 10 | Some n \<Rightarrow> n) k u
        \<and> k < (case maxLoops options of None \<Rightarrow> 10 | Some n \<Rightarrow> n)
        \<and> Array_get (capabilities aconfig) (selectionIndex aconfig u) = Some (ActionCap action)
        \<and> Action.handle action []
             (push (''Executing action: '' @ Action.name action)
                (selecting (case maxLoops options of None \<Rightarrow> 10 | Some n \<Rightarrow> n) k u))
           = (Success r, w')
        \<and> done r \<longrightarrow>
      Agent.execute (createAgent aconfig) options w
      = (Success r, push (''Completed with result: '' @ ActionReturn.result r) w'))
   \<and> (agentLoop aconfig (case maxLoops options of None \<Rightarrow> 10 | Some n \<Rightarrow> n) 0
          (push (''Starting agent: '' @ AgentConfig.name aconfig) w)
        = agentLoop aconfig (case maxLoops options of None \<Rightarrow> 10 | Some n \<Rightarrow> n) k u
        \<and> k < (case maxLoops options of None \<Rightarrow> 10 | Some n \<Rightarrow> n)
        \<and> Array_get (capabilities aconfig) (selectionIndex aconfig u) = Some (WorkflowCap workflow)
        \<and> Workflow.execute workflow
             (push (''Executing workflow: '' @ Workflow.name workflow)
                (selecting (case maxLoops options of None \<Rightarrow> 10 | Some n \<Rightarrow> n) k u))
           = (Success r, w')
        \<and> done r \<longrightarrow>
      Agent.execute (createAgent aconfig) options w
      = (Success r, push (''Completed with result: '' @ ActionReturn.result r) w'))
   \<and> (agentLoop aconfig (case maxLoops options of None \<Rightarrow> 10 | Some n \<Rightarrow> n) 0
          (push (''Starting agent: '' @ AgentConfig.name aconfig) w)
        = agentLoop aconfig (case maxLoops options of None \<Rightarrow> 10 | Some n \<Rightarrow> n) k u
        \<and> k < (case maxLoops options of None \<Rightarrow> 10 | Some n \<Rightarrow> n)
        \<and> Array_get (capabilities aconfig) (selectionIndex aconfig u) = Some (AgentCap agent)
        \<and> Agent.execute agent \<lparr>maxLoops = Some 5\<rparr>
             (push (''Delegating to sub-agent: '' @ Agent.name agent)
                (selecting (case maxLoops options of None \<Rightarrow> 10 | Some n \<Rightarrow> n) k u))
           = (Success r, w')
        \<and> done r \<longrightarrow>
      Agent.execute (createAgent aconfig) options w
      = (Success r, push (''Completed with result: '' @ ActionReturn.result r) w'))"
proof (intro conjI impI; (elim conjE)?)
  assume "Action.handle step [] w = (Success r, w')" "done r"
  then show "\<exists>f p. first step v = (Success f, v) \<and> Flow.execute f s w = (Success p, w')
             \<and> done p \<and> ActionReturn.result p = ActionReturn.result r"
    by (simp add: first_def flatMap_def succeed_def)
next
  assume "previousFlow v = (Success prevFlow, v')" "Flow.execute prevFlow s w = (Success q, w')"
    "done q"
  then show "\<exists>f. andThen step previousFlow v = (Success f, v')
           \<and> Flow.execute f s w = (Success q, w')"
    by (simp add: andThen_def flatMap_def succeed_def)
next
  assume "previousFlow v = (Success prevFlow, v')" "Flow.execute prevFlow s w = (Success q, u)"
    "\<not> done q" "Action.handle step [] u = (Success r, w')" "done r"
  then show "\<exists>f p. andThen step previousFlow v = (Success f, v')
             \<and> Flow.execute f s w = (Success p, w')
             \<and> done p \<and> ActionReturn.result p = ActionReturn.result r"
    by (simp add: andThen_def flatMap_def succeed_def)
next
  assume "previousFlow v = (Success prevFlow, v')"
    "(if 0.5 < randomValues v' (randomCount v') then onTrue branches else onFalse branches)
             (succeed prevFlow) (v'\<lparr>randomCount := Suc (randomCount v')\<rparr>) = (Success chosen, v'')"
    "Flow.execute chosen s w = (Success q, w')" "done q"
  then show "\<exists>f. doIf condition branches previousFlow v = (Success f, v'')
           \<and> Flow.execute f s w = (Success q, w')"
    by (simp add: doIf_def flatMap_def mathRandom_def Let_def split: if_splits)
next
  assume "WorkflowConfig.flow wconfig w = (Success resolved, u)"
    "Flow.execute resolved (UObj []) u = (Success q, w')" "done q"
  then show "Workflow.execute (createWorkflow wconfig) w
      = (Success \<lparr>done = True, result = ActionReturn.result q\<rparr>, w')"
    by (simp add: createWorkflow_def mapEffect_def flatMap_def succeed_def)
next
  let ?L = "case maxLoops options of None \<Rightarrow> 10 | Some n \<Rightarrow> n"
  assume reach: "agentLoop aconfig ?L 0 (push (''Starting agent: '' @ AgentConfig.name aconfig) w)
                 = agentLoop aconfig ?L k u"
    and lt: "k < ?L"
    and get: "Array_get (capabilities aconfig) (selectionIndex aconfig u) = Some (ActionCap action)"
    and run: "Action.handle action []
                (push (''Executing action: '' @ Action.name action) (selecting ?L k u))
              = (Success r, w')"
    and d: "done r"
  from run have "dispatch (ActionCap action) (selecting ?L k u) = (Success r, w')"
    by (simp only: dispatch_ActionCap)
  with reach lt get
  show "Agent.execute (createAgent aconfig) options w
        = (Success r, push (''Completed with result: '' @ ActionReturn.result r) w')"
    using d by (rule execute_pass_done)
next
  let ?L = "case maxLoops options of None \<Rightarrow> 10 | Some n \<Rightarrow> n"
  assume reach: "agentLoop aconfig ?L 0 (push (''Starting agent: '' @ AgentConfig.name aconfig) w)
                 = agentLoop aconfig ?L k u"
    and lt: "k < ?L"
    and get: "Array_get (capabilities aconfig) (selectionIndex aconfig u)
              = Some (WorkflowCap workflow)"
    and run: "Workflow.execute workflow
                (push (''Executing workflow: '' @ Workflow.name workflow) (selecting ?L k u))
              = (Success r, w')"
    and d: "done r"
  from run have "dispatch (WorkflowCap workflow) (selecting ?L k u) = (Success r, w')"
    by (simp only: dispatch_WorkflowCap)
  with reach lt get
  show "Agent.execute (createAgent aconfig) options w
        = (Success r, push (''Completed with result: '' @ ActionReturn.result r) w')"
    using d by (rule execute_pass_done)
next
  let ?L = "case maxLoops options of None \<Rightarrow> 10 | Some n \<Rightarrow> n"
  assume reach: "agentLoop aconfig ?L 0 (push (''Starting agent: '' @ AgentConfig.name aconfig) w)
                 = agentLoop aconfig ?L k u"
    and lt: "k < ?L"
    and get: "Array_get (capabilities aconfig) (selectionIndex aconfig u) = Some (AgentCap agent)"
    and run: "Agent.execute agent \<lparr>maxLoops = Some 5\<rparr>
                (push (''Delegating to sub-agent: '' @ Agent.name agent) (selecting ?L k u))
              = (Success r, w')"
    and d: "done r"
  from run have "dispatch (AgentCap agent) (selecting ?L k u) = (Success r, w')"
    by (simp only: dispatch_AgentCap)
  with reach lt get
  show "Agent.execute (createAgent aconfig) options w
        = (Success r, push (''Completed with result: '' @ ActionReturn.result r) w')"
    using d by (rule execute_pass_done)
qed

theorem done_propagates_upward_witness:
  "(\<exists>f p. first (countingStub ''A'' True ''stop'') world0 = (Success f, world0)
      \<and> Flow.execute f (UObj []) world0 = (Success p, world0\<lparr>services := 1\<rparr>)
      \<and> done p \<and> ActionReturn.result p = ''stop'')
   \<and> (\<exists>f. andThen (countingStub ''B'' False ''next'') (first (countingStub ''A'' True ''stop''))
             world0 = (Success f, world0)
      \<and> Flow.execute f (UObj []) world0
        = (Success \<lparr>done = True, result = ''stop'', nextState = Some (UObj [])\<rparr>,
           world0\<lparr>services := 1\<rparr>))
   \<and> (\<exists>f p. andThen (countingStub ''A'' True ''stop'') (first (countingStub ''B'' False ''next''))
             world0 = (Success f, world0)
      \<and> Flow.execute f (UObj []) world0 = (Success p, world0\<lparr>services := 2\<rparr>)
      \<and> done p \<and> ActionReturn.result p = ''stop'')
   \<and> (\<exists>f. doIf ''Any condition'' \<lparr>onTrue = noOp, onFalse = noOp\<rparr>
             (first (countingStub ''A'' True ''stop'')) world0
           = (Success f, world0\<lparr>randomCount := 1\<rparr>)
      \<and> Flow.execute f (UObj []) world0
        = (Success \<lparr>done = True, result = ''stop'', nextState = Some (UObj [])\<rparr>,
           world0\<lparr>services := 1\<rparr>))
   \<and> Workflow.execute (createWorkflow stopWorkflowConfig) world0
     = (Success \<lparr>done = True, result = ''stop''\<rparr>, world0\<lparr>services := 1\<rparr>)
   \<and> (fst (Agent.execute (createAgent twoActionsConfig) \<lparr>maxLoops = Some 10\<rparr> world3)
      = Success \<lparr>done = True, result = ''stop''\<rparr>
    \<and> services (snd (Agent.execute (createAgent twoActionsConfig) \<lparr>maxLoops = Some 10\<rparr> world3))
      = 2
    \<and> history (snd (Agent.execute (createAgent twoActionsConfig) \<lparr>maxLoops = Some 10\<rparr> world3))
      = [''Starting agent: Two'', ''Agent loop 1/10'', ''Executing action: B'',
         ''Agent loop 2/10'', ''Executing action: A'', ''Completed with result: stop''])
   \<and> (fst (Agent.execute (createAgent workflowOnlyConfig) \<lparr>maxLoops = Some 10\<rparr> world0)
      = Success \<lparr>done = True, result = ''stop''\<rparr>
    \<and> history (snd (Agent.execute (createAgent workflowOnlyConfig) \<lparr>maxLoops = Some 10\<rparr> world0))
      = [''Starting agent: Runner'', ''Agent loop 1/10'', ''Executing workflow: Stop'',
         ''Completed with result: stop''])
   \<and> (fst (Agent.execute (createAgent delegatingConfig) \<lparr>maxLoops = Some 10\<rparr> world0)
      = Success \<lparr>done = True, result = ''hi''\<rparr>
    \<and> history (snd (Agent.execute (createAgent delegatingConfig) \<lparr>maxLoops = Some 10\<rparr> world0))
      = [''Starting agent: Front Desk'', ''Agent loop 1/10'',
         ''Delegating to sub-agent: Support Agent'', ''Starting agent: Support Agent'',
         ''Agent loop 1/5'', ''Executing action: Respond'', ''Completed with result: hi'',
         ''Completed with result: hi''])"
proof -
  let ?A = "countingStub ''A'' True ''stop'' :: (unit, nat) Action"
  let ?B = "countingStub ''B'' False ''next'' :: (unit, nat) Action"
  let ?stop = "\<lparr>done = True, result = ''stop'', nextState = Some (UObj [])\<rparr>"
  let ?next = "\<lparr>done = False, result = ''next'', nextState = Some (UObj [])\<rparr>"
  let ?noOps = "\<lparr>onTrue = noOp, onFalse = noOp\<rparr> :: (unit, nat) Branches"
  obtain fa where
    fa: "first ?A world0 = (Success fa, world0)" and
    fa_ex: "\<forall>s. Flow.execute fa s =
            flatMap (Action.handle ?A [])
              (\<lambda>result. succeed \<lparr>done = done result, result = ActionReturn.result result,
                                  nextState = Some s\<rparr>)"
    using first_resolves by blast
  obtain fb where
    fb: "first ?B world0 = (Success fb, world0)" and
    fb_ex: "\<forall>s. Flow.execute fb s =
            flatMap (Action.handle ?B [])
              (\<lambda>result. succeed \<lparr>done = done result, result = ActionReturn.result result,
                                  nextState = Some s\<rparr>)"
    using first_resolves by blast
  have hA: "Action.handle ?A [] world0 = (Success \<lparr>done = True, result = ''stop''\<rparr>,
                                          world0\<lparr>services := 1\<rparr>)"
    by (simp add: handle_countingStub services_world0)
  have hA': "Action.handle ?A [] (world0\<lparr>services := 1\<rparr>)
             = (Success \<lparr>done = True, result = ''stop''\<rparr>, world0\<lparr>services := 2\<rparr>)"
    by (simp add: handle_countingStub)
  have ea: "Flow.execute fa (UObj []) world0 = (Success ?stop, world0\<lparr>services := 1\<rparr>)"
    by (simp add: fa_ex flatMap_def hA succeed_def)
  have eb: "Flow.execute fb (UObj []) world0 = (Success ?next, world0\<lparr>services := 1\<rparr>)"
    by (simp add: fb_ex flatMap_def handle_countingStub services_world0 succeed_def)
  have dstop: "done ?stop" and dnext: "\<not> done ?next" and dA: "done \<lparr>done = True, result = ''stop''\<rparr>"
    by simp_all
  note inst = done_propagates_upward
    [where step = ?A and w = world0 and r = "\<lparr>done = True, result = ''stop''\<rparr>" and s = "UObj []"]
  have c1: "\<exists>f p. first ?A world0 = (Success f, world0)
      \<and> Flow.execute f (UObj []) world0 = (Success p, world0\<lparr>services := 1\<rparr>)
      \<and> done p \<and> ActionReturn.result p = ''stop''"
    using inst [where w' = "world0\<lparr>services := 1\<rparr>" and v = world0, THEN conjunct1] hA dA
    by simp
  have c2: "\<exists>f. andThen ?B (first ?A) world0 = (Success f, world0)
      \<and> Flow.execute f (UObj []) world0 = (Success ?stop, world0\<lparr>services := 1\<rparr>)"
    using done_propagates_upward
      [where previousFlow = "first ?A" and v = world0 and v' = world0 and prevFlow = fa
         and s = "UObj []" and w = world0 and q = ?stop and w' = "world0\<lparr>services := 1\<rparr>"
         and step = ?B, THEN conjunct2, THEN conjunct1] fa ea dstop
    by blast
  have c3: "\<exists>f p. andThen ?A (first ?B) world0 = (Success f, world0)
      \<and> Flow.execute f (UObj []) world0 = (Success p, world0\<lparr>services := 2\<rparr>)
      \<and> done p \<and> ActionReturn.result p = ''stop''"
    using done_propagates_upward
      [where previousFlow = "first ?B" and v = world0 and v' = world0 and prevFlow = fb
         and s = "UObj []" and w = world0 and q = ?next and u = "world0\<lparr>services := 1\<rparr>"
         and step = ?A and r = "\<lparr>done = True, result = ''stop''\<rparr>"
         and w' = "world0\<lparr>services := 2\<rparr>",
         THEN conjunct2, THEN conjunct2, THEN conjunct1] fb eb dnext hA' dA
    by simp
  have ch: "(if 0.5 < randomValues world0 (randomCount world0)
             then onTrue ?noOps else onFalse ?noOps)
              (succeed fa) (world0\<lparr>randomCount := Suc (randomCount world0)\<rparr>)
            = (Success fa, world0\<lparr>randomCount := 1\<rparr>)"
    by (simp add: services_world0 noOp_def succeed_def)
  have c4: "\<exists>f. doIf ''Any condition'' ?noOps (first ?A) world0
           = (Success f, world0\<lparr>randomCount := 1\<rparr>)
      \<and> Flow.execute f (UObj []) world0 = (Success ?stop, world0\<lparr>services := 1\<rparr>)"
    using done_propagates_upward
      [where previousFlow = "first ?A" and v = world0 and v' = world0 and prevFlow = fa
         and branches = ?noOps and chosen = fa and v'' = "world0\<lparr>randomCount := 1\<rparr>"
         and s = "UObj []" and w = world0 and q = ?stop and w' = "world0\<lparr>services := 1\<rparr>"
         and condition = "''Any condition''",
         THEN conjunct2, THEN conjunct2, THEN conjunct2, THEN conjunct1] fa ch ea dstop
    by blast
  have wf: "WorkflowConfig.flow stopWorkflowConfig world0 = (Success fa, world0)"
    using fa by (simp add: stopWorkflowConfig_def)
  have c5: "Workflow.execute (createWorkflow stopWorkflowConfig) world0
     = (Success \<lparr>done = True, result = ''stop''\<rparr>, world0\<lparr>services := 1\<rparr>)"
    using done_propagates_upward
      [where wconfig = stopWorkflowConfig and w = world0 and resolved = fa and u = world0
         and q = ?stop and w' = "world0\<lparr>services := 1\<rparr>",
         THEN conjunct2, THEN conjunct2, THEN conjunct2, THEN conjunct2, THEN conjunct1]
      wf ea dstop
    by simp
  let ?o = "\<lparr>maxLoops = Some (10::int)\<rparr>"
  have L: "(case maxLoops ?o of None \<Rightarrow> 10 | Some n \<Rightarrow> n) = 10" by simp
  let ?done = "\<lparr>done = True, result = ''stop''\<rparr>"
  \<comment> \<open>an Action that is done in the second pass\<close>
  define s2 where "s2 = push (''Starting agent: '' @ AgentConfig.name twoActionsConfig) world3"
  define u2 where "u2 = (push (''Executing action: '' @ Action.name ?B) (selecting 10 0 s2))
                          \<lparr>services := 1\<rparr>"
  define e2 where "e2 = (push (''Executing action: '' @ Action.name ?A) (selecting 10 1 u2))
                          \<lparr>services := 2\<rparr>"
  have ne2: "capabilities twoActionsConfig \<noteq> []"
    by (simp add: selecting_fields history_services capabilities_twoActionsConfig)
  have "selectionIndex twoActionsConfig s2 = 0"
    by (simp add: selecting_fields history_services s2_def selectionIndex_def capabilities_twoActionsConfig world3_fields)
  then have get0: "Array_get (capabilities twoActionsConfig) (selectionIndex twoActionsConfig s2)
                   = Some (ActionCap ?B)"
    by (simp add: selecting_fields history_services capabilities_twoActionsConfig Array_get_def)
  have d0: "dispatch (ActionCap ?B) (selecting 10 0 s2)
            = (Success \<lparr>done = False, result = ''next''\<rparr>, u2)"
    by (simp add: selecting_fields history_services dispatch_ActionCap handle_countingStub u2_def s2_def world3_fields)
  have "loopBody twoActionsConfig 10 0 s2 = (Success None, u2)"
    using ne2 get0 d0 by (rule loopBody_not_done) simp
  with agentLoop_continue [of 0 10 twoActionsConfig s2 u2]
  have reach2: "agentLoop twoActionsConfig 10 0 s2 = agentLoop twoActionsConfig 10 1 u2"
    by simp
  have "selectionIndex twoActionsConfig u2 = 1"
    by (simp add: selecting_fields history_services u2_def s2_def selectionIndex_def capabilities_twoActionsConfig world3_fields)
  then have get1: "Array_get (capabilities twoActionsConfig) (selectionIndex twoActionsConfig u2)
                   = Some (ActionCap ?A)"
    by (simp add: selecting_fields history_services capabilities_twoActionsConfig Array_get_def)
  have run1: "Action.handle ?A [] (push (''Executing action: '' @ Action.name ?A) (selecting 10 1 u2))
              = (Success ?done, e2)"
    by (simp add: selecting_fields history_services handle_countingStub e2_def u2_def)
  have dstop: "done ?done" by simp
  have lt1: "(1::int) < 10" and lt0: "(0::int) < 10" by simp_all
  have two: "Agent.execute (createAgent twoActionsConfig) ?o world3
             = (Success ?done, push (''Completed with result: '' @ ActionReturn.result ?done) e2)"
    using done_propagates_upward
      [where aconfig = twoActionsConfig and options = ?o and w = world3 and k = 1 and u = u2
         and action = ?A and r = ?done and w' = e2,
         THEN conjunct2, THEN conjunct2, THEN conjunct2, THEN conjunct2, THEN conjunct2,
         THEN conjunct1]
      reach2 lt1 get1 run1 dstop
    unfolding L s2_def by blast
  have two_hist: "history (push (''Completed with result: '' @ ActionReturn.result ?done) e2)
      = [''Starting agent: Two'', ''Agent loop 1/10'', ''Executing action: B'',
         ''Agent loop 2/10'', ''Executing action: A'', ''Completed with result: stop'']"
    by (simp add: selecting_fields history_services e2_def u2_def s2_def history_push history_selecting world3_fields
        loopMessage_values name_countingStub twoActionsConfig_def)
  have two_srv: "services (push (''Completed with result: '' @ ActionReturn.result ?done) e2) = 2"
    by (simp add: selecting_fields history_services e2_def)
  \<comment> \<open>a Workflow that is done\<close>
  let ?wf = "createWorkflow stopWorkflowConfig"
  define s3 where "s3 = push (''Starting agent: '' @ AgentConfig.name workflowOnlyConfig) world0"
  define e3 where "e3 = (push (''Executing workflow: '' @ Workflow.name ?wf) (selecting 10 0 s3))
                          \<lparr>services := 1\<rparr>"
  have "selectionIndex workflowOnlyConfig s3 = 0"
    unfolding s3_def selectionIndex_push
    using unitRandom_world0
    by (rule selectionIndex_single) (simp add: selecting_fields history_services capabilities_workflowOnlyConfig)
  then have get3: "Array_get (capabilities workflowOnlyConfig)
                     (selectionIndex workflowOnlyConfig s3) = Some (WorkflowCap ?wf)"
    by (simp add: selecting_fields history_services capabilities_workflowOnlyConfig Array_get_def)
  have run3: "Workflow.execute ?wf
                (push (''Executing workflow: '' @ Workflow.name ?wf) (selecting 10 0 s3))
              = (Success ?done, e3)"
    by (simp add: selecting_fields history_services execute_stopWorkflow e3_def s3_def services_world0)
  have wf: "Agent.execute (createAgent workflowOnlyConfig) ?o world0
             = (Success ?done, push (''Completed with result: '' @ ActionReturn.result ?done) e3)"
    using done_propagates_upward
      [where aconfig = workflowOnlyConfig and options = ?o and w = world0 and k = 0 and u = s3
         and workflow = ?wf and r = ?done and w' = e3,
         THEN conjunct2, THEN conjunct2, THEN conjunct2, THEN conjunct2, THEN conjunct2,
         THEN conjunct2, THEN conjunct1]
      lt0 get3 run3 dstop
    unfolding L s3_def by blast
  have wf_hist: "history (push (''Completed with result: '' @ ActionReturn.result ?done) e3)
      = [''Starting agent: Runner'', ''Agent loop 1/10'', ''Executing workflow: Stop'',
         ''Completed with result: stop'']"
    by (simp add: selecting_fields history_services e3_def s3_def history_push history_selecting history_world0
        loopMessage_values name_stopWorkflow workflowOnlyConfig_def)
  \<comment> \<open>a sub-agent that is done\<close>
  let ?sub = "createAgent responderConfig"
  let ?hi = "\<lparr>done = True, result = ''hi''\<rparr>"
  define s4 where "s4 = push (''Starting agent: '' @ AgentConfig.name delegatingConfig) world0"
  define v4 where "v4 = push (''Delegating to sub-agent: '' @ Agent.name ?sub) (selecting 10 0 s4)"
  define e4 where "e4 = push ''Completed with result: hi''
              ((push ''Executing action: Respond''
                  (selecting 5 0 (push ''Starting agent: Support Agent'' v4)))
               \<lparr>services := Suc (services v4)\<rparr>)"
  have uv4: "unitRandom v4"
    unfolding v4_def s4_def
    by (intro unitRandom_push unitRandom_selecting unitRandom_world0)
  have "selectionIndex delegatingConfig s4 = 0"
    unfolding s4_def selectionIndex_push
    using unitRandom_world0
    by (rule selectionIndex_single) (simp add: selecting_fields history_services capabilities_delegatingConfig)
  then have get4: "Array_get (capabilities delegatingConfig)
                     (selectionIndex delegatingConfig s4) = Some (AgentCap ?sub)"
    by (simp add: selecting_fields history_services capabilities_delegatingConfig Array_get_def)
  have run4: "Agent.execute ?sub \<lparr>maxLoops = Some 5\<rparr>
                (push (''Delegating to sub-agent: '' @ Agent.name ?sub) (selecting 10 0 s4))
              = (Success ?hi, e4)"
    using execute_responder [OF uv4] by (simp add: selecting_fields history_services v4_def e4_def)
  have dhi: "done ?hi" by simp
  have ag: "Agent.execute (createAgent delegatingConfig) ?o world0
             = (Success ?hi, push (''Completed with result: '' @ ActionReturn.result ?hi) e4)"
    using done_propagates_upward
      [where aconfig = delegatingConfig and options = ?o and w = world0 and k = 0 and u = s4
         and agent = ?sub and r = ?hi and w' = e4,
         THEN conjunct2, THEN conjunct2, THEN conjunct2, THEN conjunct2, THEN conjunct2,
         THEN conjunct2, THEN conjunct2]
      lt0 get4 run4 dhi
    unfolding L s4_def by blast
  have ag_hist: "history (push (''Completed with result: '' @ ActionReturn.result ?hi) e4)
      = [''Starting agent: Front Desk'', ''Agent loop 1/10'',
         ''Delegating to sub-agent: Support Agent'', ''Starting agent: Support Agent'',
         ''Agent loop 1/5'', ''Executing action: Respond'', ''Completed with result: hi'',
         ''Completed with result: hi'']"
    by (simp add: selecting_fields history_services e4_def v4_def s4_def history_push history_selecting history_world0
        loopMessage_values name_createAgent name_responderConfig delegatingConfig_def)
  have agents: "(fst (Agent.execute (createAgent twoActionsConfig) ?o world3) = Success ?done
      \<and> services (snd (Agent.execute (createAgent twoActionsConfig) ?o world3)) = 2
      \<and> history (snd (Agent.execute (createAgent twoActionsConfig) ?o world3))
        = [''Starting agent: Two'', ''Agent loop 1/10'', ''Executing action: B'',
           ''Agent loop 2/10'', ''Executing action: A'', ''Completed with result: stop''])
     \<and> (fst (Agent.execute (createAgent workflowOnlyConfig) ?o world0) = Success ?done
      \<and> history (snd (Agent.execute (createAgent workflowOnlyConfig) ?o world0))
        = [''Starting agent: Runner'', ''Agent loop 1/10'', ''Executing workflow: Stop'',
           ''Completed with result: stop''])
     \<and> (fst (Agent.execute (createAgent delegatingConfig) ?o world0) = Success ?hi
      \<and> history (snd (Agent.execute (createAgent delegatingConfig) ?o world0))
        = [''Starting agent: Front Desk'', ''Agent loop 1/10'',
           ''Delegating to sub-agent: Support Agent'', ''Starting agent: Support Agent'',
           ''Agent loop 1/5'', ''Executing action: Respond'', ''Completed with result: hi'',
           ''Completed with result: hi''])"
    unfolding two wf ag
    using two_hist two_srv wf_hist ag_hist by simp
  from c1 c2 c3 c4 c5 agents show ?thesis by blast
qed

subsection \<open>The loop budget\<close>

text \<open>
  Claim C3. Let \<open>N \<ge> 1\<close> and let the only capability of an Agent be one Action that
  always succeeds with \<open>done = false\<close> (in every world whose random source keeps the
  contract of \<open>Math.random\<close>). Then \<open>execute\<close> with \<open>maxLoops = N\<close> succeeds with the
  budget-exhausted result, and the world it ends in is the world after the start message,
  then one pass dispatching the Action for each of the \<open>N\<close> loop counts \<open>0, \<dots>, N - 1\<close>
  (each pass runs \<open>handle\<close> once), then the budget message. In the witness a call-counting
  stub counts 3 runs for \<open>maxLoops = 3\<close>.
\<close>

theorem agent_runs_maxLoops_iterations:
  assumes "1 \<le> N"
      and "capabilities config = [ActionCap action]"
      and "\<forall>v. unitRandom v \<longrightarrow>
             (\<exists>r v'. Action.handle action [] v = (Success r, v') \<and> \<not> done r \<and> unitRandom v')"
      and "unitRandom w"
  shows "Agent.execute (createAgent config) \<lparr>maxLoops = Some N\<rparr> w
         = (Success (exhausted N),
            push (''Agent reached max loops ('' @ showInt N @ '')'')
              (foldl (actionIteration action N)
                 (push (''Starting agent: '' @ AgentConfig.name config) w) [0..N - 1]))
         \<and> length [0..N - 1] = nat N"
proof -
  have "length [0..N - 1] = nat N"
    using assms(1) by simp
  with execute_single_action [OF assms(2,3,4), of N] show ?thesis
    by simp
qed

theorem agent_runs_maxLoops_iterations_witness:
  "fst (Agent.execute (createAgent looperConfig) \<lparr>maxLoops = Some 3\<rparr> world0)
     = Success \<lparr>done = True, result = ''Agent reached maximum loops (3)''\<rparr>
   \<and> services (snd (Agent.execute (createAgent looperConfig) \<lparr>maxLoops = Some 3\<rparr> world0)) = 3
   \<and> history (snd (Agent.execute (createAgent looperConfig) \<lparr>maxLoops = Some 3\<rparr> world0))
     = [''Starting agent: Looper'',
        ''Agent loop 1/3'', ''Executing action: Stub'',
        ''Agent loop 2/3'', ''Executing action: Stub'',
        ''Agent loop 3/3'', ''Executing action: Stub'',
        ''Agent reached max loops (3)'']"
proof -
  have n: "(1::int) \<le> 3" by simp
  note run = agent_runs_maxLoops_iterations
    [OF n capabilities_looperConfig countingStub_never_done unitRandom_world0]
  have up: "[0..(2::int)] = [0, 1, 2]"
    by (simp add: upto_rec1)
  show ?thesis
    unfolding run [THEN conjunct1]
    by (simp add: up exhausted_def actionIteration_def handle_countingStub name_countingStub
        selecting_def loopMessage_def push_def history_def readArray_def showInt_def showNat.simps
        looperConfig_def world0_def startWorld_def emptyWorld_def AgentStateService_def)
qed

subsection \<open>A selection outside the candidates\<close>

text \<open>
  Claim C4. Let an Agent have at least one capability and let the selection step produce,
  in world \<open>w\<close>, an index below 0 or not below the number of candidates. Then a pass of
  the loop that starts in \<open>w\<close> ends the run with a defect (\<open>Die\<close>), neither a typed
  failure nor a success, and \<open>execute\<close> with a budget of at least one pass does so in its
  first pass; no capability is dispatched.
\<close>

theorem selection_out_of_bounds_is_defect:
  assumes "capabilities config \<noteq> []"
      and "selectionIndex config w < 0
           \<or> int (length (capabilities config)) \<le> selectionIndex config w"
  shows "(loopCount < maxLoops' \<longrightarrow>
            agentLoop config maxLoops' loopCount w
            = (Die (''Impossible: index '' @ showInt (selectionIndex config w)
                    @ '' out of bounds for array of length ''
                    @ showInt (int (length (capabilities config)))),
               selecting maxLoops' loopCount w))
       \<and> (0 < (case maxLoops options of None \<Rightarrow> 10 | Some n \<Rightarrow> n) \<longrightarrow>
            Agent.execute (createAgent config) options w
            = (Die (''Impossible: index '' @ showInt (selectionIndex config w)
                    @ '' out of bounds for array of length ''
                    @ showInt (int (length (capabilities config)))),
               selecting (case maxLoops options of None \<Rightarrow> 10 | Some n \<Rightarrow> n) 0
                 (push (''Starting agent: '' @ AgentConfig.name config) w)))"
proof -
  have none: "Array_get (capabilities config) (selectionIndex config v) = None"
    if "selectionIndex config v = selectionIndex config w" for v
    using assms(2) that by (auto simp: Array_get_def)
  have loop: "agentLoop config m l v
            = (Die (''Impossible: index '' @ showInt (selectionIndex config w)
                    @ '' out of bounds for array of length ''
                    @ showInt (int (length (capabilities config)))),
               selecting m l v)"
    if "l < m" and "selectionIndex config v = selectionIndex config w" for m l v
    using that(1) loopBody_out_of_bounds [OF assms(1) none [OF that(2)], of m l]
    unfolding that(2) by (rule agentLoop_Die)
  show ?thesis
    using loop [of loopCount maxLoops' w]
      loop [of 0 "case maxLoops options of None \<Rightarrow> 10 | Some n \<Rightarrow> n"
              "push (''Starting agent: '' @ AgentConfig.name config) w"]
    unfolding execute_createAgent by simp
qed

theorem selection_out_of_bounds_is_defect_witness:
  "capabilities looperConfig \<noteq> []
   \<and> selectionIndex looperConfig world2 = 1
   \<and> int (length (capabilities looperConfig)) = 1
   \<and> fst (Agent.execute (createAgent looperConfig) \<lparr>maxLoops = Some 3\<rparr> world2)
     = Die ''Impossible: index 1 out of bounds for array of length 1''
   \<and> services (snd (Agent.execute (createAgent looperConfig) \<lparr>maxLoops = Some 3\<rparr> world2)) = 0"
proof -
  have ne: "capabilities looperConfig \<noteq> []"
    by (simp add: capabilities_looperConfig)
  have ix: "selectionIndex looperConfig world2 = 1"
    by (simp add: selectionIndex_def capabilities_looperConfig world2_def startWorld_def
        emptyWorld_def AgentStateService_def)
  have len: "int (length (capabilities looperConfig)) = 1"
    by (simp add: capabilities_looperConfig)
  have out: "selectionIndex looperConfig world2 < 0
             \<or> int (length (capabilities looperConfig)) \<le> selectionIndex looperConfig world2"
    by (simp add: ix len)
  have lim: "0 < (case maxLoops \<lparr>maxLoops = Some (3::int)\<rparr> of None \<Rightarrow> 10 | Some n \<Rightarrow> n)"
    by simp
  have run: "Agent.execute (createAgent looperConfig) \<lparr>maxLoops = Some 3\<rparr> world2
             = (Die (''Impossible: index '' @ showInt (selectionIndex looperConfig world2)
                    @ '' out of bounds for array of length ''
                    @ showInt (int (length (capabilities looperConfig)))),
               selecting (case maxLoops \<lparr>maxLoops = Some (3::int)\<rparr> of None \<Rightarrow> 10 | Some n \<Rightarrow> n) 0
                 (push (''Starting agent: '' @ AgentConfig.name looperConfig) world2))"
    using selection_out_of_bounds_is_defect [OF ne out, THEN conjunct2, rule_format, OF lim] .
  have msg: "''Impossible: index '' @ showInt 1 @ '' out of bounds for array of length ''
             @ showInt 1 = ''Impossible: index 1 out of bounds for array of length 1''"
    by (simp add: showInt_def showNat.simps)
  have srv: "services (selecting m l (push x world2)) = 0" for m l x
    by (simp add: selecting_def world2_def startWorld_def emptyWorld_def AgentStateService_def)
  show ?thesis
    unfolding run ix len msg by (simp add: ne srv)
qed

subsection \<open>A successful Agent is done\<close>

text \<open>
  Claim C9. Whenever \<open>execute\<close> of an Agent built with \<open>createAgent\<close> succeeds, for any
  options, its result has \<open>done = true\<close>. So when the loop of a parent Agent selects a
  sub-agent built with \<open>createAgent\<close> and the sub-agent's \<open>execute\<close> (with its budget of 5)
  succeeds, by exhausting its budget or otherwise, the parent records the completion message
  and returns that result in the same pass. In the witness the sub-agent exhausts its
  budget of 5 and the parent, with a budget of 10, returns after one pass.
\<close>

theorem agent_success_is_done:
  "(Agent.execute (createAgent config) options w = (Success r, w') \<longrightarrow> done r)
   \<and> (loopCount < maxLoops'
      \<and> capabilities parent \<noteq> []
      \<and> Array_get (capabilities parent) (selectionIndex parent v) = Some (AgentCap (createAgent sub))
      \<and> Agent.execute (createAgent sub) \<lparr>maxLoops = Some 5\<rparr>
          (push (''Delegating to sub-agent: '' @ AgentConfig.name sub)
             (selecting maxLoops' loopCount v)) = (Success r', v')
      \<longrightarrow> agentLoop parent maxLoops' loopCount v
          = (Success r', push (''Completed with result: '' @ ActionReturn.result r') v'))"
proof (intro conjI impI)
  assume "Agent.execute (createAgent config) options w = (Success r, w')"
  then show "done r"
    unfolding execute_createAgent by (rule agentLoop_Success_done)
next
  assume a: "loopCount < maxLoops'
      \<and> capabilities parent \<noteq> []
      \<and> Array_get (capabilities parent) (selectionIndex parent v) = Some (AgentCap (createAgent sub))
      \<and> Agent.execute (createAgent sub) \<lparr>maxLoops = Some 5\<rparr>
          (push (''Delegating to sub-agent: '' @ AgentConfig.name sub)
             (selecting maxLoops' loopCount v)) = (Success r', v')"
  then have sub: "Agent.execute (createAgent sub) \<lparr>maxLoops = Some 5\<rparr>
          (push (''Delegating to sub-agent: '' @ AgentConfig.name sub)
             (selecting maxLoops' loopCount v)) = (Success r', v')"
    by blast
  then have d: "done r'"
    unfolding execute_createAgent by (rule agentLoop_Success_done)
  have di: "dispatch (AgentCap (createAgent sub)) (selecting maxLoops' loopCount v) = (Success r', v')"
    unfolding dispatch_AgentCap name_createAgent by (rule sub)
  have "loopBody parent maxLoops' loopCount v
        = (Success (Some r'), push (''Completed with result: '' @ ActionReturn.result r') v')"
    using a di d by (intro loopBody_done) blast+
  with a show "agentLoop parent maxLoops' loopCount v
          = (Success r', push (''Completed with result: '' @ ActionReturn.result r') v')"
    by (intro agentLoop_return) blast+
qed

theorem agent_success_is_done_witness:
  "fst (Agent.execute (createAgent parentConfig) \<lparr>maxLoops = Some 10\<rparr> world0)
     = Success \<lparr>done = True, result = ''Agent reached maximum loops (5)''\<rparr>
   \<and> done \<lparr>done = True, result = ''Agent reached maximum loops (5)''\<rparr>
   \<and> services (snd (Agent.execute (createAgent parentConfig) \<lparr>maxLoops = Some 10\<rparr> world0)) = 5
   \<and> history (snd (Agent.execute (createAgent parentConfig) \<lparr>maxLoops = Some 10\<rparr> world0))
     = [''Starting agent: Parent'', ''Agent loop 1/10'', ''Delegating to sub-agent: Looper'',
        ''Starting agent: Looper'',
        ''Agent loop 1/5'', ''Executing action: Stub'',
        ''Agent loop 2/5'', ''Executing action: Stub'',
        ''Agent loop 3/5'', ''Executing action: Stub'',
        ''Agent loop 4/5'', ''Executing action: Stub'',
        ''Agent loop 5/5'', ''Executing action: Stub'',
        ''Agent reached max loops (5)'',
        ''Completed with result: Agent reached maximum loops (5)'']"
proof -
  let ?v = "push (''Starting agent: '' @ AgentConfig.name parentConfig) world0"
  let ?u = "push (''Delegating to sub-agent: '' @ AgentConfig.name looperConfig) (selecting 10 0 ?v)"
  let ?fin = "push (''Agent reached max loops ('' @ showInt 5 @ '')'')
                (foldl (actionIteration (countingStub ''Stub'' False ''again'') 5)
                   (push (''Starting agent: '' @ AgentConfig.name looperConfig) ?u) [0..5 - 1])"
  have uv: "unitRandom ?v"
    by (intro unitRandom_push unitRandom_world0)
  have uu: "unitRandom ?u"
    by (intro unitRandom_push unitRandom_selecting uv)
  have sub: "Agent.execute (createAgent looperConfig) \<lparr>maxLoops = Some 5\<rparr> ?u
             = (Success (exhausted 5), ?fin)"
    using capabilities_looperConfig countingStub_never_done uu by (rule execute_single_action)
  have lt: "(0::int) < 10" by simp
  have ne: "capabilities parentConfig \<noteq> []"
    by (simp add: capabilities_parentConfig)
  have "selectionIndex parentConfig ?v = 0"
    using uv by (rule selectionIndex_single) (simp add: capabilities_parentConfig)
  then have get: "Array_get (capabilities parentConfig) (selectionIndex parentConfig ?v)
                  = Some (AgentCap (createAgent looperConfig))"
    by (simp add: capabilities_parentConfig Array_get_def)
  note inst = agent_success_is_done
    [where parent = parentConfig and sub = looperConfig and maxLoops' = 10 and loopCount = 0
       and v = ?v and r' = "exhausted 5" and v' = ?fin and config = looperConfig
       and options = "\<lparr>maxLoops = Some 5\<rparr>" and w = ?u and r = "exhausted 5" and w' = ?fin]
  have d: "done (exhausted 5)"
    using inst [THEN conjunct1] sub by blast
  have loop: "agentLoop parentConfig 10 0 ?v
              = (Success (exhausted 5),
                 push (''Completed with result: '' @ ActionReturn.result (exhausted 5)) ?fin)"
    using inst [THEN conjunct2] lt ne get sub by blast
  have run: "Agent.execute (createAgent parentConfig) \<lparr>maxLoops = Some 10\<rparr> world0
             = (Success (exhausted 5),
                 push (''Completed with result: '' @ ActionReturn.result (exhausted 5)) ?fin)"
    unfolding execute_createAgent using loop by simp
  have up: "[0..(4::int)] = [0, 1, 2, 3, 4]"
    by (simp add: upto_rec1)
  show ?thesis
    unfolding run
    by (simp add: up exhausted_def actionIteration_def handle_countingStub name_countingStub
        selecting_def loopMessage_def push_def history_def readArray_def showInt_def showNat.simps
        looperConfig_def parentConfig_def world0_def startWorld_def emptyWorld_def
        AgentStateService_def)
qed

subsection \<open>What a pass that is not done leaves behind\<close>

text \<open>
  Claim C10, as the code has it. The result string of a capability that returns
  \<open>done = false\<close> is discarded by the loop of an Agent: replacing these strings by
  anything else changes neither the exit of \<open>execute\<close> nor the world it ends in, so the
  string reaches neither the history, nor the execution context, nor the next pass. The
  loop itself appends only its fixed trace messages (start, loop pass, dispatch, budget
  reached) and at most one completion message, that of the done result it returns, and it
  never calls \<open>updateState\<close>: when the capabilities leave the execution context alone and
  only append messages of a kind \<open>M\<close>, one call of \<open>execute\<close> leaves the execution context
  as it was and extends the history only by trace messages of the Agent and messages of
  kind \<open>M\<close>, followed by at most that one completion message. A sub-agent built with
  \<open>createAgent\<close> is such a capability: it appends its own trace messages, what its
  capabilities append, and its own completion message.
\<close>

theorem undone_result_is_discarded:
  "Agent.execute (createAgent (withUndoneResults g config)) options w
     = Agent.execute (createAgent config) options w
   \<and> ((\<forall>c\<in>set (capabilities config). appendsOnly M (inner c))
        \<and> Agent.execute (createAgent config) options w = (x, w') \<longrightarrow>
      executionState w' = executionState w
      \<and> (\<exists>fixed. (\<forall>message\<in>set fixed.
                     isTraceMessage config (case maxLoops options of None \<Rightarrow> 10 | Some n \<Rightarrow> n)
                       message \<or> M message)
           \<and> (history w' = history w @ fixed
              \<or> (\<exists>r. x = Success r \<and> done r
                   \<and> history w' = history w @ fixed
                                 @ [''Completed with result: '' @ ActionReturn.result r]))))
   \<and> ((\<forall>c\<in>set (capabilities sub). appendsOnly M (inner c)) \<longrightarrow>
      appendsOnly
        (\<lambda>message. isTraceMessage sub 5 message \<or> M message \<or> isCompletionMessage message)
        (inner (AgentCap (createAgent sub))))"
  using execute_withUndoneResults [of g config options w]
    execute_store [of config M options w x w']
    subagent_appendsOnly [of sub M]
  by blast

theorem undone_result_is_discarded_witness:
  "Agent.execute (createAgent (withUndoneResults (\<lambda>_. ''changed'') looperConfig))
       \<lparr>maxLoops = Some 2\<rparr> world0
     = Agent.execute (createAgent looperConfig) \<lparr>maxLoops = Some 2\<rparr> world0
   \<and> executionState (snd (Agent.execute (createAgent looperConfig) \<lparr>maxLoops = Some 2\<rparr> world0))
     = executionState world0
   \<and> history (snd (Agent.execute (createAgent looperConfig) \<lparr>maxLoops = Some 2\<rparr> world0))
     = [''Starting agent: Looper'',
        ''Agent loop 1/2'', ''Executing action: Stub'',
        ''Agent loop 2/2'', ''Executing action: Stub'',
        ''Agent reached max loops (2)'']
   \<and> services (snd (Agent.execute (createAgent looperConfig) \<lparr>maxLoops = Some 2\<rparr> world0)) = 2
   \<and> executionState
        (snd (Agent.execute (createAgent delegatingConfig) \<lparr>maxLoops = Some 10\<rparr> world0))
     = executionState world0
   \<and> history (snd (Agent.execute (createAgent delegatingConfig) \<lparr>maxLoops = Some 10\<rparr> world0))
     = [''Starting agent: Front Desk'', ''Agent loop 1/10'',
        ''Delegating to sub-agent: Support Agent'', ''Starting agent: Support Agent'',
        ''Agent loop 1/5'', ''Executing action: Respond'', ''Completed with result: hi'',
        ''Completed with result: hi'']"
proof -
  let ?run = "Agent.execute (createAgent looperConfig) \<lparr>maxLoops = Some 2\<rparr> world0"
  note inst = undone_result_is_discarded
    [where g = "\<lambda>_. ''changed''" and config = looperConfig and M = "\<lambda>_. False"
       and options = "\<lparr>maxLoops = Some 2\<rparr>" and w = world0 and x = "fst ?run" and w' = "snd ?run"]
  have same: "Agent.execute (createAgent (withUndoneResults (\<lambda>_. ''changed'') looperConfig))
       \<lparr>maxLoops = Some 2\<rparr> world0 = ?run"
    using inst [THEN conjunct1] .
  have "?run = (fst ?run, snd ?run)" by simp
  with appendsOnly_looper inst [THEN conjunct2, THEN conjunct1]
  have state: "executionState (snd ?run) = executionState world0"
    by blast
  have up: "[0..(1::int)] = [0, 1]"
    by (simp add: upto_rec1)
  have run: "?run = (Success (exhausted 2),
            push (''Agent reached max loops ('' @ showInt 2 @ '')'')
              (foldl (actionIteration (countingStub ''Stub'' False ''again'') 2)
                 (push (''Starting agent: '' @ AgentConfig.name looperConfig) world0) [0..2 - 1]))"
    using capabilities_looperConfig countingStub_never_done unitRandom_world0
    by (rule execute_single_action)
  have hist: "history (snd ?run)
     = [''Starting agent: Looper'',
        ''Agent loop 1/2'', ''Executing action: Stub'',
        ''Agent loop 2/2'', ''Executing action: Stub'',
        ''Agent reached max loops (2)'']"
    and srv: "services (snd ?run) = 2"
    unfolding run
    by (simp_all add: up actionIteration_def handle_countingStub name_countingStub
        selecting_def loopMessage_def push_def history_def readArray_def showInt_def showNat.simps
        looperConfig_def world0_def startWorld_def emptyWorld_def AgentStateService_def)
  let ?del = "Agent.execute (createAgent delegatingConfig) \<lparr>maxLoops = Some 10\<rparr> world0"
  let ?M = "\<lambda>message. isTraceMessage responderConfig 5 message \<or> False
                      \<or> isCompletionMessage message"
  have sub: "appendsOnly ?M (inner (AgentCap (createAgent responderConfig)))"
    using undone_result_is_discarded
      [where sub = responderConfig and M = "\<lambda>_. False", THEN conjunct2, THEN conjunct2]
      appendsOnly_responder
    by blast
  then have caps: "\<forall>c\<in>set (capabilities delegatingConfig). appendsOnly ?M (inner c)"
    by (simp add: capabilities_delegatingConfig)
  have "?del = (fst ?del, snd ?del)" by simp
  with caps undone_result_is_discarded
    [where config = delegatingConfig and M = ?M and options = "\<lparr>maxLoops = Some 10\<rparr>"
       and w = world0 and x = "fst ?del" and w' = "snd ?del", THEN conjunct2, THEN conjunct1]
  have state_del: "executionState (snd ?del) = executionState world0"
    by blast
  from same state hist srv state_del history_delegating show ?thesis by blast
qed

text \<open>
  The claim as stated, that the history grows only by the fixed trace messages and the
  single completion message, fails for an Agent that delegates: the sub-agent writes its
  own messages to the shared history, and a done result leaves two completion messages.
\<close>

theorem single_completion_counterexample:
  "history (snd (Agent.execute (createAgent delegatingConfig) \<lparr>maxLoops = Some 10\<rparr> world0))
   = [''Starting agent: Front Desk'', ''Agent loop 1/10'',
      ''Delegating to sub-agent: Support Agent'', ''Starting agent: Support Agent'',
      ''Agent loop 1/5'', ''Executing action: Respond'', ''Completed with result: hi'',
      ''Completed with result: hi'']
   \<and> length (filter isCompletionMessage
        (history (snd (Agent.execute (createAgent delegatingConfig) \<lparr>maxLoops = Some 10\<rparr>
                         world0)))) = 2"
  unfolding history_delegating
  by (simp add: isCompletionMessage_def)

subsection \<open>The history of the store is shared, not copied\<close>

lemma perform_conversationHistory: "conversationHistory (perform op w) = conversationHistory w"
  by (cases op) (simp_all add: addMessage_def push_def getHistory_def succeed_def
      updateState_def getState_def)

lemma perform_readArray:
  "readArray (perform op w) (conversationHistory w)
   = readArray w (conversationHistory w) @ addedMessages [op]"
  by (cases op) (simp_all add: addMessage_def push_def getHistory_def succeed_def
      updateState_def getState_def readArray_def)

lemma addedMessages_Cons: "addedMessages (op # ops) = addedMessages [op] @ addedMessages ops"
  by (cases op) simp_all

lemma performAll_readArray:
  "readArray (performAll ops w) (conversationHistory w)
   = readArray w (conversationHistory w) @ addedMessages ops"
proof (induction ops arbitrary: w)
  case Nil
  show ?case by simp
next
  case (Cons op ops)
  have "readArray (performAll (op # ops) w) (conversationHistory w)
        = readArray (performAll ops (perform op w)) (conversationHistory (perform op w))"
    by (simp add: perform_conversationHistory)
  also have "\<dots> = readArray (perform op w) (conversationHistory (perform op w)) @ addedMessages ops"
    by (rule Cons.IH)
  also have "\<dots> = (readArray w (conversationHistory w) @ addedMessages [op]) @ addedMessages ops"
    by (simp only: perform_conversationHistory perform_readArray)
  finally show ?case
    by (simp add: addedMessages_Cons [of op ops])
qed

text \<open>
  Claim C6, as the code has it. \<open>getHistory\<close> returns the array of the store itself: for
  every sequence of store operations performed after the call, the sequence that was
  returned then shows its old contents followed by every message the operations append.
\<close>

theorem getHistory_live_view:
  "(getHistory :: (nat, 'e, 'r) Effect) w = (Success (conversationHistory w), w)
   \<and> readArray (performAll ops w) (conversationHistory w)
     = readArray w (conversationHistory w) @ addedMessages ops"
  by (simp add: performAll_readArray getHistory_def succeed_def)

text \<open>
  The claim as stated, that a later \<open>addMessage\<close> does not change the sequence returned
  before, fails: the sequence returned in the start world is empty then and holds the
  message after one \<open>addMessage\<close>.
\<close>

theorem getHistory_snapshot_counterexample:
  "(getHistory :: (nat, unit, nat) Effect) world0 = (Success 0, world0)
   \<and> readArray world0 0 = []
   \<and> readArray (snd ((addMessage ''late'' :: (unit, unit, nat) Effect) world0)) 0 = [''late'']
   \<and> readArray (snd ((addMessage ''late'' :: (unit, unit, nat) Effect) world0)) 0
     \<noteq> readArray world0 0"
  by (simp add: getHistory_def succeed_def world0_def startWorld_def emptyWorld_def
      AgentStateService_def readArray_def addMessage_def push_def)

subsection \<open>Branches\<close>

text \<open>
  Claim C8. \<open>doIf\<close> with \<open>noOp\<close> in both branches resolves, for every answer of the
  decision, to the Flow the unmodified builder resolves to, or ends in the same failure or
  defect; so \<open>execute\<close> of the two Flows agrees in \<open>done\<close>, \<open>result\<close>, \<open>nextState\<close> and
  error on every state and world. Resolving differs only in the one draw that the decision
  takes from the random source.
\<close>

theorem doIf_identity:
  "fst (doIf condition \<lparr>onTrue = noOp, onFalse = noOp\<rparr> previousFlow w) = fst (previousFlow w)
   \<and> snd (doIf condition \<lparr>onTrue = noOp, onFalse = noOp\<rparr> previousFlow w)
     = (case fst (previousFlow w) of
          Success resolved \<Rightarrow>
            (snd (previousFlow w))\<lparr>randomCount := Suc (randomCount (snd (previousFlow w)))\<rparr>
        | Failure e \<Rightarrow> snd (previousFlow w)
        | Die d \<Rightarrow> snd (previousFlow w))"
proof (cases "previousFlow w")
  case (Pair x w')
  then show ?thesis
    by (cases x) (simp_all add: doIf_def flatMap_def noOp_def mathRandom_def succeed_def Let_def)
qed

text \<open>
  Claim C7, as the code has it. The decision is taken when the flow builder returned by
  \<open>doIf\<close> is resolved to a Flow: resolving draws once from the random source, and the
  resolved Flow is the Flow that the chosen branch builds from the previous one.
  Executing the resolved Flow takes no decision.
\<close>

theorem doIf_decides_at_resolution:
  assumes "previousFlow v = (Success prevFlow, v')"
      and "(if 0.5 < randomValues v' (randomCount v') then onTrue branches else onFalse branches)
             (succeed prevFlow) (v'\<lparr>randomCount := Suc (randomCount v')\<rparr>) = (Success resolved, v'')"
  shows "doIf condition branches previousFlow v = (Success resolved, v'')"
  using assms by (simp add: doIf_def flatMap_def mathRandom_def Let_def split: if_splits)

theorem doIf_decides_at_resolution_witness:
  "\<exists>resolved. branchingFlow world1 = (Success resolved, world1\<lparr>randomCount := 1\<rparr>)
     \<and> andThen (countingStub ''T'' True ''true branch'')
           (first (countingStub ''F'' False ''first step'')) world1 = (Success resolved, world1)"
proof -
  let ?T = "countingStub ''T'' True ''true branch'' :: (unit, nat) Action"
  let ?F = "countingStub ''F'' False ''first step'' :: (unit, nat) Action"
  let ?b = "\<lparr>onTrue = andThen ?T, onFalse = noOp\<rparr>"
  obtain prevFlow where h1: "first ?F world1 = (Success prevFlow, world1)"
    using first_resolves by blast
  define R where "R = \<lparr>Flow.execute = (\<lambda>executionState.
         flatMap (Flow.execute prevFlow executionState) (\<lambda>prevResult.
           if done prevResult then succeed prevResult
           else flatMap (Action.handle ?T [])
                  (\<lambda>result. succeed \<lparr>done = done result, result = ActionReturn.result result,
                                      nextState = nextState prevResult\<rparr>)))\<rparr>"
  have r0: "randomValues world1 (randomCount world1) = 9 / 10" "Suc (randomCount world1) = 1"
    by (simp_all add: world1_def startWorld_def emptyWorld_def AgentStateService_def)
  have h2: "(if 0.5 < randomValues world1 (randomCount world1) then onTrue ?b else onFalse ?b)
              (succeed prevFlow) (world1\<lparr>randomCount := Suc (randomCount world1)\<rparr>)
            = (Success R, world1\<lparr>randomCount := 1\<rparr>)"
    unfolding r0 by (simp add: andThen_def flatMap_succeed R_def) (simp add: succeed_def)
  have direct: "andThen ?T (first ?F) world1 = (Success R, world1)"
    using h1 by (simp add: andThen_def flatMap_def R_def) (simp add: succeed_def)
  have "doIf ''The user still wants to cancel'' ?b (first ?F) world1
        = (Success R, world1\<lparr>randomCount := 1\<rparr>)"
    using doIf_decides_at_resolution [where previousFlow = "first ?F" and v = world1, OF h1 h2] .
  with direct show ?thesis
    by (auto simp: branchingFlow_def)
qed

text \<open>
  The claim as stated, that the decision is taken anew on every execution of the resulting
  Flow, fails: a Flow resolved when the answer was yes follows the yes-branch in both of two
  executions, although the next answer of the decision would be no, and the two executions
  draw nothing from the random source.
\<close>

theorem doIf_recheck_counterexample:
  "fst (executeTwice branchingFlow (UObj []) world1)
     = Success (\<lparr>done = True, result = ''true branch'', nextState = Some (UObj [])\<rparr>,
                \<lparr>done = True, result = ''true branch'', nextState = Some (UObj [])\<rparr>)
   \<and> randomCount (snd (executeTwice branchingFlow (UObj []) world1)) = 1
   \<and> randomValues world1 1 = 1 / 10"
  by (simp add: executeTwice_def branchingFlow_def doIf_def andThen_def first_def noOp_def
      flatMap_def mathRandom_def succeed_def handle_countingStub world1_def startWorld_def
      emptyWorld_def AgentStateService_def Let_def)

end
